theory Spec2Isabelle
  imports Main "HOL-Library.Word"
begin

section \<open>The memory-dump extension module \<open>_mem.c\<close> of pyion\<close>

text \<open>
  The module wraps two C functions for Python: \<open>pyion_sdr_dump\<close> (the transactional
  reader, for an SDR heap) and \<open>pyion_psm_dump\<close> (the direct reader, for a PSM
  partition). Both call into the ION library, read a usage summary, and shape it into a
  Python tuple \<open>(dict, dict, dict)\<close>.

  ION itself is an external library: its calls are modelled as the fields of a record
  \<open>world\<close>, which answers each call, together with a trace of the calls made so far.
  C's \<open>size_t\<close> and \<open>unsigned long\<close> are taken as 64-bit words (the LP64 data model of
  the platforms ION runs on); arithmetic on them wraps around.
\<close>

subsection \<open>Machine types and build constants\<close>

type_synonym size_t = "64 word"
type_synonym ulong = "64 word"

text \<open>
  \<open>WORD_SIZE\<close>, \<open>SMALL_SIZES\<close> and \<open>LARGE_ORDERS\<close> are macros of ION's headers, which
  the module includes. They are parameters here. \<open>WORD_SIZE\<close> is its value once converted
  to \<open>size_t\<close>; the other two are array dimensions of the usage summaries and the bounds of
  the loops over \<open>int i\<close>.
\<close>

record build =
  WORD_SIZE :: size_t
  SMALL_SIZES :: nat
  LARGE_ORDERS :: nat

subsection \<open>The usage summaries of ION\<close>

text \<open>
  \<open>SdrUsageSummary\<close> and \<open>PsmUsageSummary\<close> are structs of ION. The module reads the
  fields below into \<open>size_t\<close> locals, so each field is its value as a \<open>size_t\<close>. The two
  structs share every field the module reads but one: the heap size of an SDR, the
  partition size of a PSM partition. The two counter arrays have \<open>SMALL_SIZES\<close> and
  \<open>LARGE_ORDERS\<close> elements.
\<close>

record UsageSummary =
  smallPoolSize :: size_t
  smallPoolFreeBlockCount :: "size_t list"
  smallPoolFree :: size_t
  smallPoolAllocated :: size_t
  largePoolSize :: size_t
  largePoolFreeBlockCount :: "size_t list"
  largePoolFree :: size_t
  largePoolAllocated :: size_t
  unusedSize :: size_t

record SdrUsageSummary = UsageSummary +
  heapSize :: size_t

record PsmUsageSummary = UsageSummary +
  partitionSize :: size_t

definition summary_arrays_ok :: "build \<Rightarrow> 'a UsageSummary_scheme \<Rightarrow> bool" where
  "summary_arrays_ok b u \<longleftrightarrow>
     length (smallPoolFreeBlockCount u) = SMALL_SIZES b \<and>
     length (largePoolFreeBlockCount u) = LARGE_ORDERS b"

subsection \<open>Python values, errors and dictionaries\<close>

datatype pyobj = PyLong int | PyUnicode string | PyOther

datatype py_exc_type = PyExc_MemoryError

datatype fmt_arg = Arg_s string | Arg_i int

type_synonym Sdr = nat
type_synonym PsmPartition = nat

text \<open>
  A call that returns \<open>NULL\<close> returns one of these errors.
  \<^item> \<open>ArgumentError\<close>: \<open>PyArg_ParseTuple\<close> refused the arguments (and set the exception).
  \<^item> \<open>pyion_SetExc exc fmt args\<close>: the module called \<open>pyion_SetExc(exc, fmt, args...)\<close>,
    the printf-style helper of \<open>_utils.c\<close> that sets the exception; the call is kept as
    data, format string and arguments apart.
  \<^item> \<open>TransactionError sdr\<close>: the exception of \<open>sdr_pybegin_xn\<close> (see below).
  \<^item> \<open>NullWithoutException\<close>: the module returned \<open>NULL\<close> and set no exception itself
    (the path after \<open>sdr_end_xn\<close>).
\<close>

datatype py_error =
    ArgumentError
  | pyion_SetExc py_exc_type string "fmt_arg list"
  | TransactionError Sdr
  | NullWithoutException

text \<open>
  A Python dictionary in insertion order. \<open>PyDict_SetItem\<close> replaces the value of a key
  that is present and appends a key that is not.
\<close>

type_synonym ('k, 'v) pydict = "('k \<times> 'v) list"

fun PyDict_SetItem :: "('k, 'v) pydict \<Rightarrow> 'k \<Rightarrow> 'v \<Rightarrow> ('k, 'v) pydict" where
  "PyDict_SetItem [] k v = [(k, v)]"
| "PyDict_SetItem ((k', v') # d) k v =
     (if k' = k then (k, v) # d else (k', v') # PyDict_SetItem d k v)"

text \<open>\<open>Py_BuildValue("k", (unsigned long)x)\<close>: the Python integer of an \<open>unsigned long\<close>.\<close>

definition Py_BuildValue_k :: "size_t \<Rightarrow> int" where
  "Py_BuildValue_k x = uint (ucast x :: ulong)"

text \<open>
  \<open>PyArg_ParseTuple(args, "s", &sdrName)\<close>: exactly one argument, a \<open>str\<close> with no
  embedded NUL character.
\<close>

fun PyArg_ParseTuple_s :: "pyobj list \<Rightarrow> string option" where
  "PyArg_ParseTuple_s [PyUnicode s] = (if CHR 0x00 \<in> set s then None else Some s)"
| "PyArg_ParseTuple_s _ = None"

text \<open>
  \<open>PyArg_ParseTuple(args, "iLs", &memKey, &memSize, &partitionName)\<close>: a C \<open>int\<close>, a
  C \<open>long long\<close> and a string.
\<close>

fun PyArg_ParseTuple_iLs :: "pyobj list \<Rightarrow> (int \<times> int \<times> string) option" where
  "PyArg_ParseTuple_iLs [PyLong k, PyLong n, PyUnicode s] =
     (if - (2 ^ 31) \<le> k \<and> k < 2 ^ 31 \<and> - (2 ^ 63) \<le> n \<and> n < 2 ^ 63 \<and> CHR 0x00 \<notin> set s
      then Some (k, n, s) else None)"
| "PyArg_ParseTuple_iLs _ = None"

subsection \<open>The ION library as the module sees it\<close>

datatype event =
    E_sdr_initialize
  | E_sdr_start_using string "Sdr option"
  | E_sdr_pybegin_xn Sdr bool
  | E_sdr_usage Sdr
  | E_sdr_end_xn Sdr int
  | E_sdr_stop_using Sdr
  | E_sm_ipc_init int
  | E_memmgr_open int int string int
  | E_psm_usage PsmPartition

text \<open>
  The answers of ION in the current state of the arenas, and the calls made so far.
  \<open>sdr_start_using\<close> answers \<open>None\<close> for C's \<open>NULL\<close>. \<open>sdr_usage\<close> and \<open>psm_usage\<close> return
  nothing in C (they fill the summary) and cannot report a failure.
\<close>

record world =
  sdr_start_using :: "string \<Rightarrow> Sdr option"
  sdr_begin_xn :: "Sdr \<Rightarrow> bool"
  sdr_usage :: "Sdr \<Rightarrow> SdrUsageSummary"
  sdr_end_xn :: "Sdr \<Rightarrow> int"
  sm_ipc_init :: int
  memmgr_open :: "int \<Rightarrow> int \<Rightarrow> string \<Rightarrow> int \<times> PsmPartition"
  psm_usage :: "PsmPartition \<Rightarrow> PsmUsageSummary"
  trace :: "event list"

definition log_event :: "event \<Rightarrow> world \<Rightarrow> world" where
  "log_event e w = w\<lparr>trace := trace w @ [e]\<rparr>"

text \<open>
  Modelled from the spec: \<open>sdr_pybegin_xn\<close> is defined in \<open>_utils.c\<close>, which the module
  includes and which is not among the sources. The spec: "scoped-acquire a read
  transaction on the handle; if transaction acquisition fails, fail with
  \<open>TransactionError\<close>". It returns \<open>None\<close> when the transaction is held (C: non-zero) and
  the exception it has set otherwise (C: zero).
\<close>

definition sdr_pybegin_xn :: "world \<Rightarrow> Sdr \<Rightarrow> py_error option" where
  "sdr_pybegin_xn w sdr = (if sdr_begin_xn w sdr then None else Some (TransactionError sdr))"

subsection \<open>The two loops that build the histograms\<close>

text \<open>
  \<^verbatim>\<open>
  for (i = 0; i < SMALL_SIZES; i++) {
      sp_blk_size += WORD_SIZE;
      key = Py_BuildValue("k", (unsigned long)sp_blk_size);
      val = Py_BuildValue("k", (unsigned long)usage.smallPoolFreeBlockCount[i]);
      PyDict_SetItem(sp_blocks, key, val);
  }
  for (i = 0; i < LARGE_ORDERS; i++) {
      lp_blk_size *= 2;
      key = Py_BuildValue("k", (unsigned long)lp_blk_size);
      val = Py_BuildValue("k", (unsigned long)usage.largePoolFreeBlockCount[i]);
      PyDict_SetItem(lp_blocks, key, val);
  }
  \<close>
  Both functions of the module contain these two loops, the same text but for the
  summary they read. Each loop is one recursive function, called by both.
\<close>

function small_pool_loop ::
  "build \<Rightarrow> size_t list \<Rightarrow> nat \<Rightarrow> size_t \<Rightarrow> (int, int) pydict \<Rightarrow> (int, int) pydict" where
  "small_pool_loop b counts i sp_blk_size sp_blocks =
     (if i < SMALL_SIZES b then
        let sp_blk_size' = sp_blk_size + WORD_SIZE b;
            key = Py_BuildValue_k sp_blk_size';
            val = Py_BuildValue_k (counts ! i)
        in small_pool_loop b counts (Suc i) sp_blk_size' (PyDict_SetItem sp_blocks key val)
      else sp_blocks)"
  by pat_completeness auto
termination
  by (relation "measure (\<lambda>(b, counts, i, s, d). SMALL_SIZES b - i)") auto

declare small_pool_loop.simps [simp del]

function large_pool_loop ::
  "build \<Rightarrow> size_t list \<Rightarrow> nat \<Rightarrow> size_t \<Rightarrow> (int, int) pydict \<Rightarrow> (int, int) pydict" where
  "large_pool_loop b counts i lp_blk_size lp_blocks =
     (if i < LARGE_ORDERS b then
        let lp_blk_size' = lp_blk_size * 2;
            key = Py_BuildValue_k lp_blk_size';
            val = Py_BuildValue_k (counts ! i)
        in large_pool_loop b counts (Suc i) lp_blk_size' (PyDict_SetItem lp_blocks key val)
      else lp_blocks)"
  by pat_completeness auto
termination
  by (relation "measure (\<lambda>(b, counts, i, s, d). LARGE_ORDERS b - i)") auto

declare large_pool_loop.simps [simp del]

subsection \<open>\<open>pyion_sdr_dump\<close>: the transactional reader\<close>

text \<open>
  \<^verbatim>\<open>
  if (!PyArg_ParseTuple(args, "s", &sdrName)) return NULL;
  sdr_initialize(0, NULL, SM_NO_KEY, NULL);
  sdr = sdr_start_using(sdrName);
  if (sdr == NULL) {
      pyion_SetExc(PyExc_MemoryError, "Could not attach to SDR with name '%s'.", sdrName);
      return NULL;
  }
  if (!sdr_pybegin_xn(sdr)) return NULL;
  sdr_usage(sdr, &sdrUsage);
  if (!sdr_end_xn(sdr)) return NULL;
  ... the aggregates, the two loops ...
  sdr_stop_using(sdr);
  return Py_BuildValue("({s:k, ...}, O, O)", ..., sp_blocks, lp_blocks);
  \<close>
  Each call into ION is answered by the world the call started in, and logged. The
  result is the tuple of the dictionary of aggregates and the two histograms.
\<close>

type_synonym dump_result = "(string, int) pydict \<times> (int, int) pydict \<times> (int, int) pydict"

definition pyion_sdr_dump ::
  "build \<Rightarrow> pyobj list \<Rightarrow> world \<Rightarrow> (py_error + dump_result) \<times> world" where
  "pyion_sdr_dump b args w =
     (case PyArg_ParseTuple_s args of
        None \<Rightarrow> (Inl ArgumentError, w)
      | Some sdrName \<Rightarrow>
          let w1 = log_event E_sdr_initialize w;
              w2 = log_event (E_sdr_start_using sdrName (sdr_start_using w sdrName)) w1
          in (case sdr_start_using w sdrName of
               None \<Rightarrow>
                 (Inl (pyion_SetExc PyExc_MemoryError
                         ''Could not attach to SDR with name '%s'.'' [Arg_s sdrName]), w2)
             | Some sdr \<Rightarrow>
                 (case sdr_pybegin_xn w sdr of
                    Some exc \<Rightarrow> (Inl exc, log_event (E_sdr_pybegin_xn sdr False) w2)
                  | None \<Rightarrow>
                      let w3 = log_event (E_sdr_pybegin_xn sdr True) w2;
                          sdrUsage = sdr_usage w sdr;
                          w4 = log_event (E_sdr_usage sdr) w3;
                          w5 = log_event (E_sdr_end_xn sdr (sdr_end_xn w sdr)) w4
                      in if sdr_end_xn w sdr = 0 then (Inl NullWithoutException, w5)
                         else
                           let sp_avail = smallPoolFree sdrUsage;
                               sp_used = smallPoolAllocated sdrUsage;
                               sp_total = smallPoolSize sdrUsage;
                               lp_avail = largePoolFree sdrUsage;
                               lp_used = largePoolAllocated sdrUsage;
                               lp_total = largePoolSize sdrUsage;
                               hp_size = heapSize sdrUsage;
                               hp_avail = unusedSize sdrUsage;
                               hp_used = hp_size - (sp_avail + lp_avail + hp_avail);
                               hp_max_u = hp_size - hp_avail;
                               sp_blocks =
                                 small_pool_loop b (smallPoolFreeBlockCount sdrUsage) 0 0 [];
                               lp_blocks =
                                 large_pool_loop b (largePoolFreeBlockCount sdrUsage) 0
                                   (WORD_SIZE b) [];
                               w6 = log_event (E_sdr_stop_using sdr) w5
                           in (Inr ([(''small_pool_avail'', Py_BuildValue_k sp_avail),
                                     (''small_pool_used'', Py_BuildValue_k sp_used),
                                     (''small_pool_total'', Py_BuildValue_k sp_total),
                                     (''large_pool_avail'', Py_BuildValue_k lp_avail),
                                     (''large_pool_used'', Py_BuildValue_k lp_used),
                                     (''large_pool_total'', Py_BuildValue_k lp_total),
                                     (''heap_size'', Py_BuildValue_k hp_size),
                                     (''heap_avail'', Py_BuildValue_k hp_avail),
                                     (''heap_used'', Py_BuildValue_k hp_used),
                                     (''max_heap_used'', Py_BuildValue_k hp_max_u)],
                                    sp_blocks, lp_blocks), w6))))"

subsection \<open>\<open>pyion_psm_dump\<close>: the direct reader\<close>

text \<open>
  \<^verbatim>\<open>
  if (!PyArg_ParseTuple(args, "iLs", &memKey, &memSize, &partitionName)) return NULL;
  if (sm_ipc_init() < 0) {
      pyion_SetExc(PyExc_MemoryError, "IPC initialization failed.");
      return NULL;
  }
  if (memmgr_open(memKey, memSize, &memory, &smId, partitionName, &psm,
                  &memmgrIdx, NULL, NULL, NULL, NULL) < 0) {
      pyion_SetExc(PyExc_MemoryError, "Can't attach to PSM with key '%i'.", memKey);
      return NULL;
  }
  psm_usage(psm, &psmUsage);
  ... the aggregates, the two loops ...
  return Py_BuildValue("({s:k, ...}, O, O)", ..., sp_blocks, lp_blocks);
  \<close>
  \<open>memmgr_open\<close> answers its return code and the partition it has set \<open>psm\<close> to.
\<close>

definition pyion_psm_dump ::
  "build \<Rightarrow> pyobj list \<Rightarrow> world \<Rightarrow> (py_error + dump_result) \<times> world" where
  "pyion_psm_dump b args w =
     (case PyArg_ParseTuple_iLs args of
        None \<Rightarrow> (Inl ArgumentError, w)
      | Some (memKey, memSize, partitionName) \<Rightarrow>
          let w1 = log_event (E_sm_ipc_init (sm_ipc_init w)) w
          in if sm_ipc_init w < 0
             then (Inl (pyion_SetExc PyExc_MemoryError ''IPC initialization failed.'' []), w1)
             else
               let (rc, psm) = memmgr_open w memKey memSize partitionName;
                   w2 = log_event (E_memmgr_open memKey memSize partitionName rc) w1
               in if rc < 0
                  then (Inl (pyion_SetExc PyExc_MemoryError
                               ''Can't attach to PSM with key '%i'.'' [Arg_i memKey]), w2)
                  else
                    let psmUsage = psm_usage w psm;
                        w3 = log_event (E_psm_usage psm) w2;
                        sp_avail = smallPoolFree psmUsage;
                        sp_used = smallPoolAllocated psmUsage;
                        sp_total = smallPoolSize psmUsage;
                        lp_avail = largePoolFree psmUsage;
                        lp_used = largePoolAllocated psmUsage;
                        lp_total = largePoolSize psmUsage;
                        wm_size = partitionSize psmUsage;
                        wm_avail = unusedSize psmUsage;
                        sp_blocks =
                          small_pool_loop b (smallPoolFreeBlockCount psmUsage) 0 0 [];
                        lp_blocks =
                          large_pool_loop b (largePoolFreeBlockCount psmUsage) 0
                            (WORD_SIZE b) []
                    in (Inr ([(''small_pool_avail'', Py_BuildValue_k sp_avail),
                              (''small_pool_used'', Py_BuildValue_k sp_used),
                              (''small_pool_total'', Py_BuildValue_k sp_total),
                              (''large_pool_avail'', Py_BuildValue_k lp_avail),
                              (''large_pool_used'', Py_BuildValue_k lp_used),
                              (''large_pool_total'', Py_BuildValue_k lp_total),
                              (''wm_size'', Py_BuildValue_k wm_size),
                              (''wm_avail'', Py_BuildValue_k wm_avail)],
                             sp_blocks, lp_blocks), w3))"

subsection \<open>What a call did, and what it returned\<close>

text \<open>The calls into ION that one call of the module added to the trace.\<close>

definition call_events :: "world \<Rightarrow> world \<Rightarrow> event list" where
  "call_events w w' = drop (length (trace w)) (trace w')"

text \<open>
  The SDR handles in use after a sequence of calls: \<open>sdr_start_using\<close> that did not
  answer \<open>NULL\<close> takes one, \<open>sdr_stop_using\<close> gives it back.
\<close>

fun handles_held :: "Sdr list \<Rightarrow> event list \<Rightarrow> Sdr list" where
  "handles_held hs [] = hs"
| "handles_held hs (E_sdr_start_using name (Some sdr) # es) = handles_held (sdr # hs) es"
| "handles_held hs (E_sdr_stop_using sdr # es) = handles_held (remove1 sdr hs) es"
| "handles_held hs (e # es) = handles_held hs es"

text \<open>
  The transactions open after a sequence of calls, and whether every \<open>sdr_usage\<close> in it
  ran with a transaction open.
\<close>

fun xn_held :: "nat \<Rightarrow> event list \<Rightarrow> nat" where
  "xn_held n [] = n"
| "xn_held n (E_sdr_pybegin_xn sdr True # es) = xn_held (Suc n) es"
| "xn_held n (E_sdr_end_xn sdr rc # es) = xn_held (n - 1) es"
| "xn_held n (e # es) = xn_held n es"

fun usage_inside_xn :: "nat \<Rightarrow> event list \<Rightarrow> bool" where
  "usage_inside_xn n [] = True"
| "usage_inside_xn n (E_sdr_pybegin_xn sdr True # es) = usage_inside_xn (Suc n) es"
| "usage_inside_xn n (E_sdr_end_xn sdr rc # es) = usage_inside_xn (n - 1) es"
| "usage_inside_xn n (E_sdr_usage sdr # es) = (0 < n \<and> usage_inside_xn n es)"
| "usage_inside_xn n (e # es) = usage_inside_xn n es"

fun is_acquire :: "event \<Rightarrow> bool" where
  "is_acquire (E_sdr_pybegin_xn sdr True) = True"
| "is_acquire e = False"

fun is_release :: "event \<Rightarrow> bool" where
  "is_release (E_sdr_end_xn sdr rc) = True"
| "is_release e = False"

fun is_usage :: "event \<Rightarrow> bool" where
  "is_usage (E_sdr_usage sdr) = True"
| "is_usage e = False"

text \<open>A field of the first dictionary of a result; \<open>None\<close> for an error or a missing key.\<close>

definition result_field :: "py_error + dump_result \<Rightarrow> string \<Rightarrow> int option" where
  "result_field r k = (case r of Inl e \<Rightarrow> None | Inr (agg, sp, lp) \<Rightarrow> map_of agg k)"

definition heap_invariant :: "py_error + dump_result \<Rightarrow> bool" where
  "heap_invariant r \<longleftrightarrow>
     (case (result_field r ''heap_used'', result_field r ''max_heap_used'',
            result_field r ''heap_size'') of
        (Some u, Some m, Some s) \<Rightarrow> u \<le> m \<and> m \<le> s
      | _ \<Rightarrow> False)"

text \<open>
  The block sizes fit \<open>size_t\<close>: a word has a size, and neither the largest small block
  (\<open>WORD_SIZE * SMALL_SIZES\<close>) nor the largest large block (\<open>WORD_SIZE * 2 ^ LARGE_ORDERS\<close>)
  wraps around.
\<close>

definition build_ok :: "build \<Rightarrow> bool" where
  "build_ok b \<longleftrightarrow>
     0 < uint (WORD_SIZE b) \<and>
     uint (WORD_SIZE b) * int (SMALL_SIZES b) < 2 ^ 64 \<and>
     uint (WORD_SIZE b) * 2 ^ LARGE_ORDERS b < 2 ^ 64"

text \<open>The size-class keys as the spec writes them, on Python's integers.\<close>

definition small_key :: "build \<Rightarrow> nat \<Rightarrow> int" where
  "small_key b i = uint (WORD_SIZE b) * (int i + 1)"

definition large_key :: "build \<Rightarrow> nat \<Rightarrow> int" where
  "large_key b i = uint (WORD_SIZE b) * 2 ^ (i + 1)"

subsection \<open>Example worlds\<close>

definition example_build :: build where
  "example_build = \<lparr>WORD_SIZE = 8, SMALL_SIZES = 4, LARGE_ORDERS = 3\<rparr>"

definition example_sdr_usage :: SdrUsageSummary where
  "example_sdr_usage =
     \<lparr>smallPoolSize = 300000, smallPoolFreeBlockCount = [5, 0, 7, 1],
      smallPoolFree = 50000, smallPoolAllocated = 250000,
      largePoolSize = 600000, largePoolFreeBlockCount = [0, 2, 9],
      largePoolFree = 20000, largePoolAllocated = 580000,
      unusedSize = 100000, heapSize = 1000000\<rparr>"

definition wrapped_sdr_usage :: SdrUsageSummary where
  "wrapped_sdr_usage =
     \<lparr>smallPoolSize = 0, smallPoolFreeBlockCount = [0, 0, 0, 0],
      smallPoolFree = 0, smallPoolAllocated = 0,
      largePoolSize = 0, largePoolFreeBlockCount = [0, 0, 0],
      largePoolFree = 0, largePoolAllocated = 0,
      unusedSize = 1, heapSize = 0\<rparr>"

definition example_psm_usage :: PsmUsageSummary where
  "example_psm_usage =
     \<lparr>smallPoolSize = 4096, smallPoolFreeBlockCount = [3, 3, 0, 4],
      smallPoolFree = 1024, smallPoolAllocated = 3072,
      largePoolSize = 8192, largePoolFreeBlockCount = [6, 0, 1],
      largePoolFree = 2048, largePoolAllocated = 6144,
      unusedSize = 500, partitionSize = 16384\<rparr>"

text \<open>
  One SDR named \<open>ion\<close>, with handle 3, and one partition with key 65281, with handle 5.
  A transaction can be opened, and \<open>sdr_end_xn\<close> answers 1, with which the module goes on.
  The other worlds differ from this one in one answer each.
\<close>

definition example_world :: world where
  "example_world =
     \<lparr>sdr_start_using = (\<lambda>name. if name = ''ion'' then Some 3 else None),
      sdr_begin_xn = (\<lambda>sdr. True),
      sdr_usage = (\<lambda>sdr. example_sdr_usage),
      sdr_end_xn = (\<lambda>sdr. 1),
      sm_ipc_init = 0,
      memmgr_open = (\<lambda>key size name. if key = 65281 then (0, 5) else (- 1, 0)),
      psm_usage = (\<lambda>psm. example_psm_usage),
      trace = []\<rparr>"

definition no_xn_world :: world where
  "no_xn_world = example_world\<lparr>sdr_begin_xn := (\<lambda>sdr. False)\<rparr>"

definition end_zero_world :: world where
  "end_zero_world = example_world\<lparr>sdr_end_xn := (\<lambda>sdr. 0)\<rparr>"

definition no_ipc_world :: world where
  "no_ipc_world = example_world\<lparr>sm_ipc_init := - 1\<rparr>"

definition wrapped_world :: world where
  "wrapped_world = example_world\<lparr>sdr_usage := (\<lambda>sdr. wrapped_sdr_usage)\<rparr>"

section \<open>Lemmas\<close>

subsection \<open>Dictionaries\<close>

lemma PyDict_SetItem_keys: "fst ` set (PyDict_SetItem d k v) = insert k (fst ` set d)"
proof (induction d)
  case Nil
  then show ?case by simp
next
  case (Cons p d)
  obtain k' v' where p: "p = (k', v')" by (cases p)
  show ?case
  proof (cases "k' = k")
    case True
    then show ?thesis by (simp add: p)
  next
    case False
    then show ?thesis using Cons.IH by (simp add: p insert_commute)
  qed
qed

lemma PyDict_SetItem_fresh: "k \<notin> fst ` set d \<Longrightarrow> PyDict_SetItem d k v = d @ [(k, v)]"
  by (induction d) auto

lemma foldl_SetItem_keys:
  "fst ` set (foldl (\<lambda>d j. PyDict_SetItem d (k j) (v j)) d js) = fst ` set d \<union> k ` set js"
  by (induction js arbitrary: d) (auto simp: PyDict_SetItem_keys)

lemma foldl_SetItem_fresh:
  "distinct (map k js) \<Longrightarrow> k ` set js \<inter> fst ` set d = {} \<Longrightarrow>
   foldl (\<lambda>d j. PyDict_SetItem d (k j) (v j)) d js = d @ map (\<lambda>j. (k j, v j)) js"
proof (induction js arbitrary: d)
  case Nil
  then show ?case by simp
next
  case (Cons j js)
  have fresh: "k j \<notin> fst ` set d" using Cons.prems(2) by auto
  have step: "PyDict_SetItem d (k j) (v j) = d @ [(k j, v j)]"
    by (rule PyDict_SetItem_fresh [OF fresh])
  have "k ` set js \<inter> fst ` set (d @ [(k j, v j)]) = {}"
    using Cons.prems by auto
  with Cons.IH [of "d @ [(k j, v j)]"] Cons.prems(1) step show ?case by simp
qed

subsection \<open>The loops as folds\<close>

lemma small_pool_loop_foldl:
  "s = of_nat i * WORD_SIZE b \<Longrightarrow>
   small_pool_loop b cs i s d =
     foldl (\<lambda>d j. PyDict_SetItem d (Py_BuildValue_k (of_nat (Suc j) * WORD_SIZE b))
                     (Py_BuildValue_k (cs ! j))) d [i..<SMALL_SIZES b]"
proof (induction b cs i s d rule: small_pool_loop.induct)
  case (1 b counts i sp_blk_size sp_blocks)
  show ?case
  proof (cases "i < SMALL_SIZES b")
    case True
    have inv: "sp_blk_size + WORD_SIZE b = of_nat (Suc i) * WORD_SIZE b"
      using "1.prems" by (simp add: algebra_simps)
    show ?thesis
      using True "1.IH" [OF True refl refl refl inv] inv
      by (subst small_pool_loop.simps) (simp add: upt_conv_Cons Let_def)
  next
    case False
    then show ?thesis by (subst small_pool_loop.simps) simp
  qed
qed

lemma large_pool_loop_foldl:
  "s = WORD_SIZE b * 2 ^ i \<Longrightarrow>
   large_pool_loop b cs i s d =
     foldl (\<lambda>d j. PyDict_SetItem d (Py_BuildValue_k (WORD_SIZE b * 2 ^ Suc j))
                     (Py_BuildValue_k (cs ! j))) d [i..<LARGE_ORDERS b]"
proof (induction b cs i s d rule: large_pool_loop.induct)
  case (1 b counts i lp_blk_size lp_blocks)
  show ?case
  proof (cases "i < LARGE_ORDERS b")
    case True
    have inv: "lp_blk_size * 2 = WORD_SIZE b * 2 ^ Suc i"
      using "1.prems" by simp
    show ?thesis
      using True "1.IH" [OF True refl refl refl inv] inv
      by (subst large_pool_loop.simps) (simp add: upt_conv_Cons Let_def)
  next
    case False
    then show ?thesis by (subst large_pool_loop.simps) simp
  qed
qed

subsection \<open>Block sizes that do not wrap around\<close>

lemma Py_BuildValue_k_uint: "Py_BuildValue_k x = uint x"
  by (simp add: Py_BuildValue_k_def)

lemma build_okD:
  assumes "build_ok b"
  shows "0 < uint (WORD_SIZE b)"
    and "uint (WORD_SIZE b) * int (SMALL_SIZES b) < 2 ^ 64"
    and "uint (WORD_SIZE b) * 2 ^ LARGE_ORDERS b < 2 ^ 64"
  using assms unfolding build_ok_def by blast+

lemma uint_add_no_wrap:
  fixes x y :: size_t
  assumes "uint x + uint y < 2 ^ 64"
  shows "uint (x + y) = uint x + uint y"
  using assms uint_add_lem [of x y] by simp

lemma uint_times_Suc:
  fixes W :: size_t
  shows "uint W * (int j + 1) < 2 ^ 64 \<Longrightarrow> uint (of_nat (Suc j) * W) = uint W * (int j + 1)"
proof (induction j)
  case 0
  then show ?case by simp
next
  case (Suc j)
  have "uint W * (int j + 1) \<le> uint W * (int (Suc j) + 1)"
    by (rule mult_left_mono) simp_all
  then have "uint W * (int j + 1) < 2 ^ 64" using Suc.prems by (rule le_less_trans)
  then have IH: "uint (of_nat (Suc j) * W) = uint W * (int j + 1)" by (rule Suc.IH)
  have split: "of_nat (Suc (Suc j)) * W = of_nat (Suc j) * W + W"
    by (simp add: algebra_simps)
  have sum: "uint (of_nat (Suc j) * W) + uint W = uint W * (int (Suc j) + 1)"
    unfolding IH by (simp add: algebra_simps)
  have "uint (of_nat (Suc j) * W + W) = uint (of_nat (Suc j) * W) + uint W"
    by (rule uint_add_no_wrap) (use sum Suc.prems in simp)
  then show ?case unfolding split sum .
qed

lemma uint_times_2p:
  fixes W :: size_t
  shows "uint W * 2 ^ j < 2 ^ 64 \<Longrightarrow> uint (W * 2 ^ j) = uint W * 2 ^ j"
proof (induction j)
  case 0
  then show ?case by simp
next
  case (Suc j)
  have "uint W * 2 ^ j \<le> uint W * 2 ^ Suc j"
    by (rule mult_left_mono) simp_all
  then have "uint W * 2 ^ j < 2 ^ 64" using Suc.prems by (rule le_less_trans)
  then have IH: "uint (W * 2 ^ j) = uint W * 2 ^ j" by (rule Suc.IH)
  have split: "W * 2 ^ Suc j = W * 2 ^ j + W * 2 ^ j"
    by simp
  have sum: "uint (W * 2 ^ j) + uint (W * 2 ^ j) = uint W * 2 ^ Suc j"
    unfolding IH by simp
  have "uint (W * 2 ^ j + W * 2 ^ j) = uint (W * 2 ^ j) + uint (W * 2 ^ j)"
    by (rule uint_add_no_wrap) (use sum Suc.prems in simp)
  then show ?case unfolding split sum .
qed

lemma small_key_exact:
  assumes ok: "build_ok b" and j: "j < SMALL_SIZES b"
  shows "Py_BuildValue_k (of_nat (Suc j) * WORD_SIZE b) = small_key b j"
proof -
  note W = build_okD [OF ok]
  have "int j + 1 \<le> int (SMALL_SIZES b)" using j by simp
  then have "uint (WORD_SIZE b) * (int j + 1) \<le> uint (WORD_SIZE b) * int (SMALL_SIZES b)"
    by (rule mult_left_mono) simp
  then have "uint (WORD_SIZE b) * (int j + 1) < 2 ^ 64"
    using W(2) by (rule le_less_trans)
  then show ?thesis
    unfolding Py_BuildValue_k_uint small_key_def by (rule uint_times_Suc)
qed

lemma large_key_exact:
  assumes ok: "build_ok b" and j: "j < LARGE_ORDERS b"
  shows "Py_BuildValue_k (WORD_SIZE b * 2 ^ Suc j) = large_key b j"
proof -
  note W = build_okD [OF ok]
  have "(2::int) ^ Suc j \<le> 2 ^ LARGE_ORDERS b"
    using j by (intro power_increasing) simp_all
  then have "uint (WORD_SIZE b) * 2 ^ Suc j \<le> uint (WORD_SIZE b) * 2 ^ LARGE_ORDERS b"
    by (rule mult_left_mono) simp
  then have "uint (WORD_SIZE b) * 2 ^ Suc j < 2 ^ 64"
    using W(3) by (rule le_less_trans)
  then have "uint (WORD_SIZE b * 2 ^ Suc j) = uint (WORD_SIZE b) * 2 ^ Suc j"
    by (rule uint_times_2p)
  then show ?thesis
    unfolding Py_BuildValue_k_uint large_key_def by simp
qed

lemma small_key_strict: "build_ok b \<Longrightarrow> i < j \<Longrightarrow> small_key b i < small_key b j"
  by (simp add: build_ok_def small_key_def)

lemma large_key_strict: "build_ok b \<Longrightarrow> i < j \<Longrightarrow> large_key b i < large_key b j"
  by (simp add: build_ok_def large_key_def)

subsection \<open>The histograms a call returns\<close>

lemma small_pool_loop_start:
  "small_pool_loop b cs 0 0 d =
     foldl (\<lambda>d j. PyDict_SetItem d (Py_BuildValue_k (of_nat (Suc j) * WORD_SIZE b))
                     (Py_BuildValue_k (cs ! j))) d [0..<SMALL_SIZES b]"
  by (rule small_pool_loop_foldl) simp

lemma large_pool_loop_start:
  "large_pool_loop b cs 0 (WORD_SIZE b) d =
     foldl (\<lambda>d j. PyDict_SetItem d (Py_BuildValue_k (WORD_SIZE b * 2 ^ Suc j))
                     (Py_BuildValue_k (cs ! j))) d [0..<LARGE_ORDERS b]"
  by (rule large_pool_loop_foldl) simp

lemma small_hist_keys:
  "fst ` set (small_pool_loop b cs 0 0 []) =
     (\<lambda>j. Py_BuildValue_k (of_nat (Suc j) * WORD_SIZE b)) ` {0..<SMALL_SIZES b}"
  unfolding small_pool_loop_start foldl_SetItem_keys by simp

lemma large_hist_keys:
  "fst ` set (large_pool_loop b cs 0 (WORD_SIZE b) []) =
     (\<lambda>j. Py_BuildValue_k (WORD_SIZE b * 2 ^ Suc j)) ` {0..<LARGE_ORDERS b}"
  unfolding large_pool_loop_start foldl_SetItem_keys by simp

lemma distinct_map_strict:
  fixes k :: "nat \<Rightarrow> int"
  assumes "\<And>i j. i < j \<Longrightarrow> j < n \<Longrightarrow> k i < k j"
  shows "distinct (map k [0..<n])"
proof -
  have "inj_on k {0..<n}"
  proof (rule inj_onI)
    fix i j assume "i \<in> {0..<n}" "j \<in> {0..<n}" "k i = k j"
    then show "i = j"
      using assms [of i j] assms [of j i] by (cases i j rule: linorder_cases) auto
  qed
  then show ?thesis by (simp add: distinct_map)
qed

lemma small_hist_exact:
  assumes ok: "build_ok b"
  shows "small_pool_loop b cs 0 0 [] =
           map (\<lambda>j. (small_key b j, Py_BuildValue_k (cs ! j))) [0..<SMALL_SIZES b]"
proof -
  let ?k = "\<lambda>j. Py_BuildValue_k (of_nat (Suc j) * WORD_SIZE b)"
  let ?v = "\<lambda>j. Py_BuildValue_k (cs ! j)"
  have keq: "?k j = small_key b j" if "j < SMALL_SIZES b" for j
    using ok that by (rule small_key_exact)
  have "?k i < ?k j" if "i < j" "j < SMALL_SIZES b" for i j
    using that small_key_strict [OF ok, of i j] by (simp only: keq)
  then have "distinct (map ?k [0..<SMALL_SIZES b])"
    by (rule distinct_map_strict)
  then have "foldl (\<lambda>d j. PyDict_SetItem d (?k j) (?v j)) [] [0..<SMALL_SIZES b] =
               [] @ map (\<lambda>j. (?k j, ?v j)) [0..<SMALL_SIZES b]"
    by (rule foldl_SetItem_fresh) simp
  also have "\<dots> = map (\<lambda>j. (small_key b j, ?v j)) [0..<SMALL_SIZES b]"
    using keq by (simp del: of_nat_Suc)
  finally show ?thesis unfolding small_pool_loop_start .
qed

lemma large_hist_exact:
  assumes ok: "build_ok b"
  shows "large_pool_loop b cs 0 (WORD_SIZE b) [] =
           map (\<lambda>j. (large_key b j, Py_BuildValue_k (cs ! j))) [0..<LARGE_ORDERS b]"
proof -
  let ?k = "\<lambda>j. Py_BuildValue_k (WORD_SIZE b * 2 ^ Suc j)"
  let ?v = "\<lambda>j. Py_BuildValue_k (cs ! j)"
  have keq: "?k j = large_key b j" if "j < LARGE_ORDERS b" for j
    using ok that by (rule large_key_exact)
  have "?k i < ?k j" if "i < j" "j < LARGE_ORDERS b" for i j
    using that large_key_strict [OF ok, of i j] by (simp only: keq)
  then have "distinct (map ?k [0..<LARGE_ORDERS b])"
    by (rule distinct_map_strict)
  then have "foldl (\<lambda>d j. PyDict_SetItem d (?k j) (?v j)) [] [0..<LARGE_ORDERS b] =
               [] @ map (\<lambda>j. (?k j, ?v j)) [0..<LARGE_ORDERS b]"
    by (rule foldl_SetItem_fresh) simp
  also have "\<dots> = map (\<lambda>j. (large_key b j, ?v j)) [0..<LARGE_ORDERS b]"
    using keq by (simp del: power_Suc)
  finally show ?thesis unfolding large_pool_loop_start .
qed

lemma sorted_small_keys: "build_ok b \<Longrightarrow> sorted_wrt (<) (map (small_key b) [0..<n])"
  by (simp add: sorted_wrt_map sorted_wrt_iff_nth_less small_key_strict)

lemma sorted_large_keys: "build_ok b \<Longrightarrow> sorted_wrt (<) (map (large_key b) [0..<n])"
  by (simp add: sorted_wrt_map sorted_wrt_iff_nth_less large_key_strict)

subsection \<open>The paths through the two readers\<close>

lemma call_events_append [simp]: "call_events w (w\<lparr>trace := trace w @ es\<rparr>) = es"
  by (simp add: call_events_def)

lemma call_events_same [simp]: "call_events w w = []"
  by (simp add: call_events_def)

lemma sdr_dump_no_args:
  "PyArg_ParseTuple_s args = None \<Longrightarrow> pyion_sdr_dump b args w = (Inl ArgumentError, w)"
  by (simp add: pyion_sdr_dump_def)

lemma sdr_dump_no_attach:
  assumes "PyArg_ParseTuple_s args = Some name" and "sdr_start_using w name = None"
  shows "pyion_sdr_dump b args w =
           (Inl (pyion_SetExc PyExc_MemoryError ''Could not attach to SDR with name '%s'.''
                   [Arg_s name]),
            w\<lparr>trace := trace w @ [E_sdr_initialize, E_sdr_start_using name None]\<rparr>)"
  using assms by (simp add: pyion_sdr_dump_def log_event_def)

lemma sdr_dump_no_xn:
  assumes "PyArg_ParseTuple_s args = Some name" and "sdr_start_using w name = Some sdr"
    and "\<not> sdr_begin_xn w sdr"
  shows "pyion_sdr_dump b args w =
           (Inl (TransactionError sdr),
            w\<lparr>trace := trace w @ [E_sdr_initialize, E_sdr_start_using name (Some sdr),
                                   E_sdr_pybegin_xn sdr False]\<rparr>)"
  using assms by (simp add: pyion_sdr_dump_def log_event_def sdr_pybegin_xn_def)

lemma sdr_dump_end_zero:
  assumes "PyArg_ParseTuple_s args = Some name" and "sdr_start_using w name = Some sdr"
    and "sdr_begin_xn w sdr" and "sdr_end_xn w sdr = 0"
  shows "pyion_sdr_dump b args w =
           (Inl NullWithoutException,
            w\<lparr>trace := trace w @ [E_sdr_initialize, E_sdr_start_using name (Some sdr),
                                   E_sdr_pybegin_xn sdr True, E_sdr_usage sdr,
                                   E_sdr_end_xn sdr 0]\<rparr>)"
  using assms by (simp add: pyion_sdr_dump_def log_event_def sdr_pybegin_xn_def)

lemma sdr_dump_success:
  assumes "PyArg_ParseTuple_s args = Some name" and "sdr_start_using w name = Some sdr"
    and "sdr_begin_xn w sdr" and "sdr_end_xn w sdr \<noteq> 0"
  shows "pyion_sdr_dump b args w =
           (Inr ([(''small_pool_avail'', uint (smallPoolFree (sdr_usage w sdr))),
                  (''small_pool_used'', uint (smallPoolAllocated (sdr_usage w sdr))),
                  (''small_pool_total'', uint (smallPoolSize (sdr_usage w sdr))),
                  (''large_pool_avail'', uint (largePoolFree (sdr_usage w sdr))),
                  (''large_pool_used'', uint (largePoolAllocated (sdr_usage w sdr))),
                  (''large_pool_total'', uint (largePoolSize (sdr_usage w sdr))),
                  (''heap_size'', uint (heapSize (sdr_usage w sdr))),
                  (''heap_avail'', uint (unusedSize (sdr_usage w sdr))),
                  (''heap_used'',
                   uint (heapSize (sdr_usage w sdr) -
                         (smallPoolFree (sdr_usage w sdr) + largePoolFree (sdr_usage w sdr) +
                          unusedSize (sdr_usage w sdr)))),
                  (''max_heap_used'',
                   uint (heapSize (sdr_usage w sdr) - unusedSize (sdr_usage w sdr)))],
                 small_pool_loop b (smallPoolFreeBlockCount (sdr_usage w sdr)) 0 0 [],
                 large_pool_loop b (largePoolFreeBlockCount (sdr_usage w sdr)) 0 (WORD_SIZE b) []),
            w\<lparr>trace := trace w @ [E_sdr_initialize, E_sdr_start_using name (Some sdr),
                                   E_sdr_pybegin_xn sdr True, E_sdr_usage sdr,
                                   E_sdr_end_xn sdr (sdr_end_xn w sdr),
                                   E_sdr_stop_using sdr]\<rparr>)"
  using assms
  by (simp add: pyion_sdr_dump_def log_event_def sdr_pybegin_xn_def Let_def
      Py_BuildValue_k_uint)

lemma sdr_paths [case_names no_args no_attach no_xn end_zero success]:
  obtains "PyArg_ParseTuple_s args = None"
  | name where "PyArg_ParseTuple_s args = Some name" "sdr_start_using w name = None"
  | name sdr where "PyArg_ParseTuple_s args = Some name" "sdr_start_using w name = Some sdr"
      "\<not> sdr_begin_xn w sdr"
  | name sdr where "PyArg_ParseTuple_s args = Some name" "sdr_start_using w name = Some sdr"
      "sdr_begin_xn w sdr" "sdr_end_xn w sdr = 0"
  | name sdr where "PyArg_ParseTuple_s args = Some name" "sdr_start_using w name = Some sdr"
      "sdr_begin_xn w sdr" "sdr_end_xn w sdr \<noteq> 0"
proof (cases "PyArg_ParseTuple_s args")
  case None
  then show ?thesis using that(1) by blast
next
  case (Some name)
  show ?thesis
  proof (cases "sdr_start_using w name")
    case None
    with Some show ?thesis using that(2) by blast
  next
    case (Some sdr)
    with \<open>PyArg_ParseTuple_s args = Some name\<close> show ?thesis
      using that(3,4,5) by blast
  qed
qed

lemma psm_dump_no_args:
  "PyArg_ParseTuple_iLs args = None \<Longrightarrow> pyion_psm_dump b args w = (Inl ArgumentError, w)"
  by (simp add: pyion_psm_dump_def)

lemma psm_dump_no_ipc:
  assumes "PyArg_ParseTuple_iLs args = Some (memKey, memSize, partitionName)"
    and "sm_ipc_init w < 0"
  shows "pyion_psm_dump b args w =
           (Inl (pyion_SetExc PyExc_MemoryError ''IPC initialization failed.'' []),
            w\<lparr>trace := trace w @ [E_sm_ipc_init (sm_ipc_init w)]\<rparr>)"
  using assms by (simp add: pyion_psm_dump_def log_event_def)

lemma psm_dump_no_attach:
  assumes "PyArg_ParseTuple_iLs args = Some (memKey, memSize, partitionName)"
    and "\<not> sm_ipc_init w < 0"
    and "memmgr_open w memKey memSize partitionName = (rc, psm)" and "rc < 0"
  shows "pyion_psm_dump b args w =
           (Inl (pyion_SetExc PyExc_MemoryError ''Can't attach to PSM with key '%i'.''
                   [Arg_i memKey]),
            w\<lparr>trace := trace w @ [E_sm_ipc_init (sm_ipc_init w),
                                   E_memmgr_open memKey memSize partitionName rc]\<rparr>)"
  using assms by (simp add: pyion_psm_dump_def log_event_def)

lemma psm_dump_success:
  assumes "PyArg_ParseTuple_iLs args = Some (memKey, memSize, partitionName)"
    and "\<not> sm_ipc_init w < 0"
    and "memmgr_open w memKey memSize partitionName = (rc, psm)" and "\<not> rc < 0"
  shows "pyion_psm_dump b args w =
           (Inr ([(''small_pool_avail'', uint (smallPoolFree (psm_usage w psm))),
                  (''small_pool_used'', uint (smallPoolAllocated (psm_usage w psm))),
                  (''small_pool_total'', uint (smallPoolSize (psm_usage w psm))),
                  (''large_pool_avail'', uint (largePoolFree (psm_usage w psm))),
                  (''large_pool_used'', uint (largePoolAllocated (psm_usage w psm))),
                  (''large_pool_total'', uint (largePoolSize (psm_usage w psm))),
                  (''wm_size'', uint (partitionSize (psm_usage w psm))),
                  (''wm_avail'', uint (unusedSize (psm_usage w psm)))],
                 small_pool_loop b (smallPoolFreeBlockCount (psm_usage w psm)) 0 0 [],
                 large_pool_loop b (largePoolFreeBlockCount (psm_usage w psm)) 0 (WORD_SIZE b) []),
            w\<lparr>trace := trace w @ [E_sm_ipc_init (sm_ipc_init w),
                                   E_memmgr_open memKey memSize partitionName rc,
                                   E_psm_usage psm]\<rparr>)"
  using assms
  by (simp add: pyion_psm_dump_def log_event_def Let_def Py_BuildValue_k_uint)

lemma psm_paths [case_names no_args no_ipc no_attach success]:
  obtains "PyArg_ParseTuple_iLs args = None"
  | memKey memSize partitionName where
      "PyArg_ParseTuple_iLs args = Some (memKey, memSize, partitionName)" "sm_ipc_init w < 0"
  | memKey memSize partitionName rc psm where
      "PyArg_ParseTuple_iLs args = Some (memKey, memSize, partitionName)"
      "\<not> sm_ipc_init w < 0" "memmgr_open w memKey memSize partitionName = (rc, psm)" "rc < 0"
  | memKey memSize partitionName rc psm where
      "PyArg_ParseTuple_iLs args = Some (memKey, memSize, partitionName)"
      "\<not> sm_ipc_init w < 0" "memmgr_open w memKey memSize partitionName = (rc, psm)"
      "\<not> rc < 0"
proof (cases "PyArg_ParseTuple_iLs args")
  case None
  then show ?thesis using that(1) by blast
next
  case (Some t)
  obtain memKey memSize partitionName where t: "t = (memKey, memSize, partitionName)"
    by (cases t)
  obtain rc psm where m: "memmgr_open w memKey memSize partitionName = (rc, psm)"
    by (cases "memmgr_open w memKey memSize partitionName")
  show ?thesis
    using Some t m that(2,3,4) by blast
qed

subsection \<open>Arithmetic of \<open>size_t\<close> that does not wrap around\<close>

lemma uint_sub_no_wrap:
  fixes x y :: size_t
  assumes "uint y \<le> uint x"
  shows "uint (x - y) = uint x - uint y"
  using assms uint_sub_lem [of y x] by simp

lemma uint_heap_used:
  fixes H SA LA HA :: size_t
  assumes le: "uint SA + uint LA + uint HA \<le> uint H"
  shows "uint (H - (SA + LA + HA)) = uint H - (uint SA + uint LA + uint HA)"
proof -
  have H: "uint H < 2 ^ 64" using uint_lt2p [of H] by simp
  have pos: "0 \<le> uint SA" "0 \<le> uint LA" "0 \<le> uint HA" by simp_all
  have "uint SA + uint LA < 2 ^ 64" using le H pos by linarith
  then have a: "uint (SA + LA) = uint SA + uint LA" by (rule uint_add_no_wrap)
  have "uint (SA + LA) + uint HA < 2 ^ 64" unfolding a using le H by linarith
  then have b: "uint (SA + LA + HA) = uint SA + uint LA + uint HA"
    using a by (simp add: uint_add_no_wrap)
  have "uint (SA + LA + HA) \<le> uint H" unfolding b by (rule le)
  then show ?thesis using b by (simp add: uint_sub_no_wrap)
qed

subsection \<open>Calls in the example worlds\<close>

lemma example_sdr_call:
  "PyArg_ParseTuple_s [PyUnicode ''ion''] = Some ''ion''"
  "sdr_start_using example_world ''ion'' = Some 3"
  "sdr_begin_xn example_world 3"
  "sdr_end_xn example_world 3 \<noteq> 0"
  by (simp_all add: example_world_def)

lemma wrapped_sdr_call:
  "sdr_start_using wrapped_world ''ion'' = Some 3"
  "sdr_begin_xn wrapped_world 3"
  "sdr_end_xn wrapped_world 3 \<noteq> 0"
  "sdr_usage wrapped_world 3 = wrapped_sdr_usage"
  by (simp_all add: wrapped_world_def example_world_def)

lemma example_psm_call:
  "PyArg_ParseTuple_iLs [PyLong 65281, PyLong 16384, PyUnicode ''psm''] =
     Some (65281, 16384, ''psm'')"
  "\<not> sm_ipc_init example_world < 0"
  "memmgr_open example_world 65281 16384 ''psm'' = (0, 5)"
  "\<not> (0::int) < 0"
  "psm_usage example_world 5 = example_psm_usage"
  by (simp_all add: example_world_def)

subsection \<open>Results and their histograms\<close>

lemma sdr_dump_Inr:
  assumes "fst (pyion_sdr_dump b args w) = Inr (agg, sp, lp)"
  obtains name sdr where "PyArg_ParseTuple_s args = Some name"
    and "sdr_start_using w name = Some sdr"
    and "sp = small_pool_loop b (smallPoolFreeBlockCount (sdr_usage w sdr)) 0 0 []"
    and "lp = large_pool_loop b (largePoolFreeBlockCount (sdr_usage w sdr)) 0 (WORD_SIZE b) []"
proof (cases rule: sdr_paths [where args = args and w = w])
  case no_args
  then show ?thesis using assms by (simp add: sdr_dump_no_args)
next
  case (no_attach name)
  then show ?thesis using assms by (simp add: sdr_dump_no_attach)
next
  case (no_xn name sdr)
  then show ?thesis using assms by (simp add: sdr_dump_no_xn)
next
  case (end_zero name sdr)
  then show ?thesis using assms by (simp add: sdr_dump_end_zero)
next
  case (success name sdr)
  show ?thesis
    using assms that [OF success(1,2)] unfolding sdr_dump_success [OF success, of b] by simp
qed

lemma psm_dump_Inr:
  assumes "fst (pyion_psm_dump b args w) = Inr (agg, sp, lp)"
  obtains memKey memSize partitionName where
    "PyArg_ParseTuple_iLs args = Some (memKey, memSize, partitionName)"
    and "sp = small_pool_loop b (smallPoolFreeBlockCount
               (psm_usage w (snd (memmgr_open w memKey memSize partitionName)))) 0 0 []"
    and "lp = large_pool_loop b (largePoolFreeBlockCount
               (psm_usage w (snd (memmgr_open w memKey memSize partitionName)))) 0
               (WORD_SIZE b) []"
proof (cases rule: psm_paths [where args = args and w = w])
  case no_args
  then show ?thesis using assms by (simp add: psm_dump_no_args)
next
  case (no_ipc k n s)
  then show ?thesis using assms by (simp add: psm_dump_no_ipc)
next
  case (no_attach k n s rc psm)
  then show ?thesis using assms by (simp add: psm_dump_no_attach)
next
  case (success k n s rc psm)
  show ?thesis
    using assms that [OF success(1)] success(3)
    unfolding psm_dump_success [OF success, of b] by simp
qed

lemma map_of_indexed:
  fixes k :: "nat \<Rightarrow> int"
  assumes "\<And>i j. i < j \<Longrightarrow> j < n \<Longrightarrow> k i < k j" and "i < n"
  shows "map_of (map (\<lambda>j. (k j, v j)) [0..<n]) (k i) = Some (v i)"
proof -
  have "distinct (map fst (map (\<lambda>j. (k j, v j)) [0..<n]))"
    using distinct_map_strict [of n k] assms(1) by (simp add: comp_def)
  moreover have "(k i, v i) \<in> set (map (\<lambda>j. (k j, v j)) [0..<n])"
    using assms(2) by auto
  ultimately show ?thesis by (simp only: map_of_eq_Some_iff)
qed

lemma zip_indexed:
  "length cs = n \<Longrightarrow> map (\<lambda>j. (k j, f (cs ! j))) [0..<n] = zip (map k [0..<n]) (map f cs)"
  by (rule nth_equalityI) simp_all

text \<open>What the two loops return for block sizes that do not wrap around.\<close>

lemma histograms_exact:
  assumes ok: "build_ok b"
    and sp: "sp = small_pool_loop b cs 0 0 []"
    and lp: "lp = large_pool_loop b cl 0 (WORD_SIZE b) []"
  shows "map fst sp = map (small_key b) [0..<SMALL_SIZES b]"
    and "map fst lp = map (large_key b) [0..<LARGE_ORDERS b]"
    and "length sp = SMALL_SIZES b" and "length lp = LARGE_ORDERS b"
    and "i < SMALL_SIZES b \<Longrightarrow> map_of sp (small_key b i) = Some (uint (cs ! i))"
    and "j < LARGE_ORDERS b \<Longrightarrow> map_of lp (large_key b j) = Some (uint (cl ! j))"
    and "length cs = SMALL_SIZES b \<Longrightarrow>
           sp = zip (map (small_key b) [0..<SMALL_SIZES b]) (map uint cs)"
    and "length cl = LARGE_ORDERS b \<Longrightarrow>
           lp = zip (map (large_key b) [0..<LARGE_ORDERS b]) (map uint cl)"
proof -
  have sp': "sp = map (\<lambda>j. (small_key b j, uint (cs ! j))) [0..<SMALL_SIZES b]"
    unfolding sp small_hist_exact [OF ok] Py_BuildValue_k_uint ..
  have lp': "lp = map (\<lambda>j. (large_key b j, uint (cl ! j))) [0..<LARGE_ORDERS b]"
    unfolding lp large_hist_exact [OF ok] Py_BuildValue_k_uint ..
  show "map fst sp = map (small_key b) [0..<SMALL_SIZES b]"
    unfolding sp' by (simp add: comp_def)
  show "map fst lp = map (large_key b) [0..<LARGE_ORDERS b]"
    unfolding lp' by (simp add: comp_def)
  show "length sp = SMALL_SIZES b" unfolding sp' by simp
  show "length lp = LARGE_ORDERS b" unfolding lp' by simp
  show "map_of sp (small_key b i) = Some (uint (cs ! i))" if "i < SMALL_SIZES b"
    unfolding sp' using small_key_strict [OF ok] that by (intro map_of_indexed) simp_all
  show "map_of lp (large_key b j) = Some (uint (cl ! j))" if "j < LARGE_ORDERS b"
    unfolding lp' using large_key_strict [OF ok] that by (intro map_of_indexed) simp_all
  show "sp = zip (map (small_key b) [0..<SMALL_SIZES b]) (map uint cs)"
    if "length cs = SMALL_SIZES b"
    unfolding sp' using that by (rule zip_indexed)
  show "lp = zip (map (large_key b) [0..<LARGE_ORDERS b]) (map uint cl)"
    if "length cl = LARGE_ORDERS b"
    unfolding lp' using that by (rule zip_indexed)
qed

lemma example_build_ok: "build_ok example_build"
  by (simp add: build_ok_def example_build_def)

lemma example_keys:
  "map (small_key example_build) [0..<SMALL_SIZES example_build] = [8, 16, 24, 32]"
  "map (large_key example_build) [0..<LARGE_ORDERS example_build] = [16, 32, 64]"
  by (simp_all add: small_key_def large_key_def example_build_def upt_rec)

lemma example_sdr_result:
  "\<exists>agg sp lp.
     fst (pyion_sdr_dump example_build [PyUnicode ''ion''] example_world) = Inr (agg, sp, lp)"
  unfolding sdr_dump_success [OF example_sdr_call] by simp

lemma example_psm_result:
  "\<exists>agg sp lp.
     fst (pyion_psm_dump example_build [PyLong 65281, PyLong 16384, PyUnicode ''psm'']
            example_world) = Inr (agg, sp, lp)"
  unfolding psm_dump_success [OF example_psm_call(1,2,3,4)] by simp

subsection \<open>Calls that fail in the example worlds\<close>

lemma no_xn_sdr_call:
  "sdr_start_using no_xn_world ''ion'' = Some 3"
  "\<not> sdr_begin_xn no_xn_world 3"
  by (simp_all add: no_xn_world_def example_world_def)

lemma end_zero_sdr_call:
  "sdr_start_using end_zero_world ''ion'' = Some 3"
  "sdr_begin_xn end_zero_world 3"
  "sdr_end_xn end_zero_world 3 = 0"
  by (simp_all add: end_zero_world_def example_world_def)

lemma failing_calls:
  "PyArg_ParseTuple_s [PyUnicode ''nowhere''] = Some ''nowhere''"
  "sdr_start_using example_world ''nowhere'' = None"
  "sm_ipc_init no_ipc_world < 0"
  "PyArg_ParseTuple_iLs [PyLong 7, PyLong 16384, PyUnicode ''psm''] = Some (7, 16384, ''psm'')"
  "fst (memmgr_open example_world 7 16384 ''psm'') < 0"
  by (simp_all add: example_world_def no_ipc_world_def)

subsection \<open>A call changes the trace and nothing else\<close>

lemma sdr_dump_trace_irrelevant:
  "fst (pyion_sdr_dump b args (w\<lparr>trace := t\<rparr>)) = fst (pyion_sdr_dump b args w)"
proof (cases rule: sdr_paths [where args = args and w = w])
  case no_args
  then show ?thesis by (simp add: sdr_dump_no_args)
next
  case (no_attach name)
  then show ?thesis
    using sdr_dump_no_attach [of args name w b]
      sdr_dump_no_attach [of args name "w\<lparr>trace := t\<rparr>" b] by simp
next
  case (no_xn name sdr)
  then show ?thesis
    using sdr_dump_no_xn [of args name w sdr b]
      sdr_dump_no_xn [of args name "w\<lparr>trace := t\<rparr>" sdr b] by simp
next
  case (end_zero name sdr)
  then show ?thesis
    using sdr_dump_end_zero [of args name w sdr b]
      sdr_dump_end_zero [of args name "w\<lparr>trace := t\<rparr>" sdr b] by simp
next
  case (success name sdr)
  then show ?thesis
    using sdr_dump_success [of args name w sdr b]
      sdr_dump_success [of args name "w\<lparr>trace := t\<rparr>" sdr b] by simp
qed

lemma sdr_dump_world:
  "snd (pyion_sdr_dump b args w) = w\<lparr>trace := trace (snd (pyion_sdr_dump b args w))\<rparr>"
proof (cases rule: sdr_paths [where args = args and w = w])
  case no_args
  then show ?thesis by (simp add: sdr_dump_no_args)
next
  case (no_attach name)
  then show ?thesis by (simp add: sdr_dump_no_attach)
next
  case (no_xn name sdr)
  then show ?thesis by (simp add: sdr_dump_no_xn)
next
  case (end_zero name sdr)
  then show ?thesis by (simp add: sdr_dump_end_zero)
next
  case (success name sdr)
  then show ?thesis by (simp add: sdr_dump_success)
qed

lemma psm_dump_trace_irrelevant:
  "fst (pyion_psm_dump b args (w\<lparr>trace := t\<rparr>)) = fst (pyion_psm_dump b args w)"
proof (cases rule: psm_paths [where args = args and w = w])
  case no_args
  then show ?thesis by (simp add: psm_dump_no_args)
next
  case (no_ipc k n s)
  then show ?thesis
    using psm_dump_no_ipc [of args k n s w b]
      psm_dump_no_ipc [of args k n s "w\<lparr>trace := t\<rparr>" b] by simp
next
  case (no_attach k n s rc psm)
  then show ?thesis
    using psm_dump_no_attach [of args k n s w rc psm b]
      psm_dump_no_attach [of args k n s "w\<lparr>trace := t\<rparr>" rc psm b] by simp
next
  case (success k n s rc psm)
  then show ?thesis
    using psm_dump_success [of args k n s w rc psm b]
      psm_dump_success [of args k n s "w\<lparr>trace := t\<rparr>" rc psm b] by simp
qed

lemma psm_dump_world:
  "snd (pyion_psm_dump b args w) = w\<lparr>trace := trace (snd (pyion_psm_dump b args w))\<rparr>"
proof (cases rule: psm_paths [where args = args and w = w])
  case no_args
  then show ?thesis by (simp add: psm_dump_no_args)
next
  case (no_ipc k n s)
  then show ?thesis by (simp add: psm_dump_no_ipc)
next
  case (no_attach k n s rc psm)
  then show ?thesis by (simp add: psm_dump_no_attach)
next
  case (success k n s rc psm)
  then show ?thesis by (simp add: psm_dump_success)
qed

section \<open>The claims\<close>

subsection \<open>The heap aggregates of the transactional reader\<close>

text \<open>
  Claim C1. A call of \<open>pyion_sdr_dump\<close> that returns a result read one summary \<open>u\<close>,
  and the result holds \<open>heap_used = heapSize - (smallPoolFree + largePoolFree + unusedSize)\<close>
  and \<open>max_heap_used = heapSize - unusedSize\<close>, in the arithmetic of \<open>size_t\<close>; where the
  subtraction does not wrap around these are the differences of the integers. The call
  made one usage query, inside the transaction, and after \<open>sdr_end_xn\<close> it called ION
  only to give the handle back: the aggregates are arithmetic on the summary.
\<close>

theorem sdr_dump_heap_aggregates:
  assumes "fst (pyion_sdr_dump b args w) = Inr res"
    and "PyArg_ParseTuple_s args = Some name"
    and "sdr_start_using w name = Some sdr"
    and "u = sdr_usage w sdr"
  shows "result_field (Inr res) ''heap_used'' =
           Some (uint (heapSize u - (smallPoolFree u + largePoolFree u + unusedSize u))) \<and>
         result_field (Inr res) ''max_heap_used'' = Some (uint (heapSize u - unusedSize u)) \<and>
         (uint (smallPoolFree u) + uint (largePoolFree u) + uint (unusedSize u)
            \<le> uint (heapSize u) \<longrightarrow>
          result_field (Inr res) ''heap_used'' =
            Some (uint (heapSize u) -
                  (uint (smallPoolFree u) + uint (largePoolFree u) + uint (unusedSize u))) \<and>
          result_field (Inr res) ''max_heap_used'' =
            Some (uint (heapSize u) - uint (unusedSize u))) \<and>
         call_events w (snd (pyion_sdr_dump b args w)) =
           [E_sdr_initialize, E_sdr_start_using name (Some sdr), E_sdr_pybegin_xn sdr True,
            E_sdr_usage sdr, E_sdr_end_xn sdr (sdr_end_xn w sdr), E_sdr_stop_using sdr]"
proof (cases rule: sdr_paths [where args = args and w = w])
  case no_args
  then show ?thesis using assms(1) by (simp add: sdr_dump_no_args)
next
  case (no_attach name')
  then show ?thesis using assms(1) by (simp add: sdr_dump_no_attach)
next
  case (no_xn name' sdr')
  then show ?thesis using assms(1) by (simp add: sdr_dump_no_xn)
next
  case (end_zero name' sdr')
  then show ?thesis using assms(1) by (simp add: sdr_dump_end_zero)
next
  case (success name' sdr')
  then have same: "name' = name" "sdr' = sdr" using assms(2,3) by simp_all
  have max_le: "uint (unusedSize u) \<le> uint (heapSize u)"
    if "uint (smallPoolFree u) + uint (largePoolFree u) + uint (unusedSize u)
          \<le> uint (heapSize u)"
  proof -
    have "0 \<le> uint (smallPoolFree u)" "0 \<le> uint (largePoolFree u)" by simp_all
    with that show ?thesis by linarith
  qed
  have R: "Inr res = fst (pyion_sdr_dump b args w)" using assms(1) by simp
  show ?thesis
    unfolding R sdr_dump_success [OF success, of b] using max_le
    by (simp add: same assms(4) result_field_def uint_heap_used uint_sub_no_wrap)
qed

text \<open>
  The example of the spec: a heap of 1,000,000 bytes with 100,000 unused, 50,000 free in
  the small pool and 20,000 free in the large pool.
\<close>

theorem sdr_dump_heap_aggregates_witness:
  "result_field (fst (pyion_sdr_dump example_build [PyUnicode ''ion''] example_world))
     ''heap_used'' = Some 830000 \<and>
   result_field (fst (pyion_sdr_dump example_build [PyUnicode ''ion''] example_world))
     ''max_heap_used'' = Some 900000"
proof -
  have p: "PyArg_ParseTuple_s [PyUnicode ''ion''] = Some ''ion''" by simp
  have s: "sdr_start_using example_world ''ion'' = Some 3" by (simp add: example_world_def)
  have u: "example_sdr_usage = sdr_usage example_world 3" by (simp add: example_world_def)
  have bx: "sdr_begin_xn example_world 3" and ex: "sdr_end_xn example_world 3 \<noteq> 0"
    by (simp_all add: example_world_def)
  have "\<exists>res. fst (pyion_sdr_dump example_build [PyUnicode ''ion''] example_world) = Inr res"
    unfolding sdr_dump_success [OF p s bx ex] by simp
  then obtain res
    where r: "fst (pyion_sdr_dump example_build [PyUnicode ''ion''] example_world) = Inr res"
    by blast
  show ?thesis
    using sdr_dump_heap_aggregates [OF r p s u]
    by (simp add: r example_sdr_usage_def)
qed

subsection \<open>The order of the heap aggregates\<close>

text \<open>
  Claim C3, as stated, fails: \<open>heap_used \<le> max_heap_used \<le> heap_size\<close> does not hold for
  all field values. The module subtracts in \<open>size_t\<close> and checks nothing, so a summary
  with more unused bytes than heap bytes (here 1 and 0) wraps around.
\<close>

theorem sdr_dump_heap_invariant_counterexample:
  "result_field (fst (pyion_sdr_dump example_build [PyUnicode ''ion''] wrapped_world))
     ''heap_size'' = Some 0 \<and>
   result_field (fst (pyion_sdr_dump example_build [PyUnicode ''ion''] wrapped_world))
     ''max_heap_used'' = Some 18446744073709551615 \<and>
   \<not> heap_invariant (fst (pyion_sdr_dump example_build [PyUnicode ''ion''] wrapped_world))"
  unfolding sdr_dump_success [OF example_sdr_call(1) wrapped_sdr_call(1,2,3)]
  by (simp add: wrapped_sdr_call(4) wrapped_sdr_usage_def heap_invariant_def result_field_def
      unsigned_minus_1_eq_mask mask_eq_exp_minus_1)

text \<open>
  Claim C3, amended. When the summary satisfies
  \<open>smallPoolFree + largePoolFree + unusedSize \<le> heapSize\<close> (on the integers), the result
  of a call that returns one has \<open>heap_used \<le> max_heap_used \<le> heap_size\<close>.
\<close>

theorem sdr_dump_heap_invariant:
  assumes "fst (pyion_sdr_dump b args w) = Inr res"
    and "PyArg_ParseTuple_s args = Some name"
    and "sdr_start_using w name = Some sdr"
    and "u = sdr_usage w sdr"
    and "uint (smallPoolFree u) + uint (largePoolFree u) + uint (unusedSize u)
           \<le> uint (heapSize u)"
  shows "heap_invariant (Inr res)"
proof (cases rule: sdr_paths [where args = args and w = w])
  case no_args
  then show ?thesis using assms(1) by (simp add: sdr_dump_no_args)
next
  case (no_attach name')
  then show ?thesis using assms(1) by (simp add: sdr_dump_no_attach)
next
  case (no_xn name' sdr')
  then show ?thesis using assms(1) by (simp add: sdr_dump_no_xn)
next
  case (end_zero name' sdr')
  then show ?thesis using assms(1) by (simp add: sdr_dump_end_zero)
next
  case (success name' sdr')
  then have same: "name' = name" "sdr' = sdr" using assms(2,3) by simp_all
  have pos: "0 \<le> uint (smallPoolFree u)" "0 \<le> uint (largePoolFree u)"
    "0 \<le> uint (unusedSize u)" by simp_all
  have max_le: "uint (unusedSize u) \<le> uint (heapSize u)"
    using assms(5) pos by linarith
  have used: "uint (heapSize u - (smallPoolFree u + largePoolFree u + unusedSize u)) =
                uint (heapSize u) -
                (uint (smallPoolFree u) + uint (largePoolFree u) + uint (unusedSize u))"
    using assms(5) by (rule uint_heap_used)
  have maxu: "uint (heapSize u - unusedSize u) = uint (heapSize u) - uint (unusedSize u)"
    using max_le by (rule uint_sub_no_wrap)
  have order: "uint (heapSize u) -
                 (uint (smallPoolFree u) + uint (largePoolFree u) + uint (unusedSize u))
                 \<le> uint (heapSize u) - uint (unusedSize u) \<and>
               uint (heapSize u) - uint (unusedSize u) \<le> uint (heapSize u)"
    using pos by linarith
  have R: "Inr res = fst (pyion_sdr_dump b args w)" using assms(1) by simp
  have "heap_invariant
          (Inr ([(''heap_size'', uint (heapSize u)),
                 (''heap_used'',
                  uint (heapSize u - (smallPoolFree u + largePoolFree u + unusedSize u))),
                 (''max_heap_used'', uint (heapSize u - unusedSize u))], [], []))"
    unfolding used maxu using order by (simp add: heap_invariant_def result_field_def)
  then show ?thesis
    unfolding R sdr_dump_success [OF success, of b]
    by (simp add: same assms(4) [symmetric] heap_invariant_def result_field_def)
qed

theorem sdr_dump_heap_invariant_witness:
  "heap_invariant (fst (pyion_sdr_dump example_build [PyUnicode ''ion''] example_world))"
proof -
  have u: "example_sdr_usage = sdr_usage example_world 3" by (simp add: example_world_def)
  have le: "uint (smallPoolFree example_sdr_usage) + uint (largePoolFree example_sdr_usage) +
              uint (unusedSize example_sdr_usage) \<le> uint (heapSize example_sdr_usage)"
    by (simp add: example_sdr_usage_def)
  have "\<exists>res. fst (pyion_sdr_dump example_build [PyUnicode ''ion''] example_world) = Inr res"
    unfolding sdr_dump_success [OF example_sdr_call] by simp
  then obtain res
    where r: "fst (pyion_sdr_dump example_build [PyUnicode ''ion''] example_world) = Inr res"
    by blast
  show ?thesis
    using sdr_dump_heap_invariant [OF r example_sdr_call(1,2) u le] by (simp add: r)
qed

subsection \<open>The field names of the direct reader\<close>

text \<open>
  Claim C4, as stated, fails: the first dictionary of \<open>pyion_psm_dump\<close> has no key
  \<open>partition_size\<close> and no key \<open>partition_avail\<close>. The module names the two fields
  \<open>wm_size\<close> and \<open>wm_avail\<close>.
\<close>

theorem psm_dump_field_names_counterexample:
  "result_field (fst (pyion_psm_dump example_build
      [PyLong 65281, PyLong 16384, PyUnicode ''psm''] example_world)) ''wm_size'' = Some 16384 \<and>
   result_field (fst (pyion_psm_dump example_build
      [PyLong 65281, PyLong 16384, PyUnicode ''psm''] example_world)) ''partition_size'' = None \<and>
   result_field (fst (pyion_psm_dump example_build
      [PyLong 65281, PyLong 16384, PyUnicode ''psm''] example_world)) ''partition_avail'' = None"
  unfolding psm_dump_success [OF example_psm_call(1,2,3,4)]
  by (simp add: example_psm_call(5) example_psm_usage_def result_field_def)

text \<open>
  Claim C4, amended. A call of \<open>pyion_psm_dump\<close> that returns a result returns, as its
  first dictionary, the six pool fields and then \<open>wm_size\<close> and \<open>wm_avail\<close>, each with
  the value of its field of the summary read from the partition that \<open>memmgr_open\<close>
  answered.
\<close>

theorem psm_dump_field_names:
  assumes "fst (pyion_psm_dump b args w) = Inr (agg, sp, lp)"
    and "PyArg_ParseTuple_iLs args = Some (memKey, memSize, partitionName)"
    and "u = psm_usage w (snd (memmgr_open w memKey memSize partitionName))"
  shows "agg = [(''small_pool_avail'', uint (smallPoolFree u)),
                (''small_pool_used'', uint (smallPoolAllocated u)),
                (''small_pool_total'', uint (smallPoolSize u)),
                (''large_pool_avail'', uint (largePoolFree u)),
                (''large_pool_used'', uint (largePoolAllocated u)),
                (''large_pool_total'', uint (largePoolSize u)),
                (''wm_size'', uint (partitionSize u)),
                (''wm_avail'', uint (unusedSize u))]"
proof (cases rule: psm_paths [where args = args and w = w])
  case no_args
  then show ?thesis using assms(1) by (simp add: psm_dump_no_args)
next
  case (no_ipc k n s)
  then show ?thesis using assms(1) by (simp add: psm_dump_no_ipc)
next
  case (no_attach k n s rc psm)
  then show ?thesis using assms(1) by (simp add: psm_dump_no_attach)
next
  case (success k n s rc psm)
  then have same: "k = memKey" "n = memSize" "s = partitionName" using assms(2) by simp_all
  have u: "u = psm_usage w psm" using assms(3) success(3) by (simp add: same)
  show ?thesis
    using assms(1) unfolding psm_dump_success [OF success, of b] by (auto simp: u)
qed

theorem psm_dump_field_names_witness:
  "\<exists>agg sp lp.
     fst (pyion_psm_dump example_build [PyLong 65281, PyLong 16384, PyUnicode ''psm'']
            example_world) = Inr (agg, sp, lp) \<and>
     map_of agg ''wm_size'' = Some 16384 \<and> map_of agg ''wm_avail'' = Some 500"
proof -
  have "\<exists>agg sp lp. fst (pyion_psm_dump example_build
          [PyLong 65281, PyLong 16384, PyUnicode ''psm''] example_world) = Inr (agg, sp, lp)"
    unfolding psm_dump_success [OF example_psm_call(1,2,3,4)] by simp
  then obtain agg sp lp
    where r: "fst (pyion_psm_dump example_build
          [PyLong 65281, PyLong 16384, PyUnicode ''psm''] example_world) = Inr (agg, sp, lp)"
    by blast
  have u: "example_psm_usage =
             psm_usage example_world (snd (memmgr_open example_world 65281 16384 ''psm''))"
    by (simp add: example_world_def)
  have "map_of agg ''wm_size'' = Some 16384 \<and> map_of agg ''wm_avail'' = Some 500"
    unfolding psm_dump_field_names [OF r example_psm_call(1) u]
    by (simp add: example_psm_usage_def)
  with r show ?thesis by blast
qed

subsection \<open>The keys of the histograms\<close>

text \<open>
  Claim C5. The block sizes of the build fit \<open>size_t\<close> (\<open>build_ok\<close>: the constants come
  from ION's headers). Then in the histograms that either reader returns, the small-pool
  key of index \<open>i\<close> is \<open>WORD_SIZE * (i + 1)\<close> for every \<open>i < SMALL_SIZES\<close>, the large-pool
  key of index \<open>i\<close> is \<open>WORD_SIZE * 2 ^ (i + 1)\<close> for every \<open>i < LARGE_ORDERS\<close>, and the keys
  of each histogram are strictly increasing in \<open>i\<close>.
\<close>

theorem histogram_keys:
  assumes "build_ok b"
    and "fst (pyion_sdr_dump b args w) = Inr (agg, sp, lp) \<or>
         fst (pyion_psm_dump b args w) = Inr (agg, sp, lp)"
  shows "map fst sp = map (small_key b) [0..<SMALL_SIZES b] \<and>
         map fst lp = map (large_key b) [0..<LARGE_ORDERS b] \<and>
         sorted_wrt (<) (map fst sp) \<and> sorted_wrt (<) (map fst lp)"
proof -
  obtain cs cl where "sp = small_pool_loop b cs 0 0 []"
    and "lp = large_pool_loop b cl 0 (WORD_SIZE b) []"
    using assms(2) by (elim disjE sdr_dump_Inr psm_dump_Inr) blast+
  then have "map fst sp = map (small_key b) [0..<SMALL_SIZES b]"
    and "map fst lp = map (large_key b) [0..<LARGE_ORDERS b]"
    by (rule histograms_exact [OF assms(1)])+
  then show ?thesis
    using sorted_small_keys [OF assms(1)] sorted_large_keys [OF assms(1)] by simp
qed

theorem histogram_keys_witness:
  "(\<exists>agg sp lp.
      fst (pyion_sdr_dump example_build [PyUnicode ''ion''] example_world) = Inr (agg, sp, lp) \<and>
      map fst sp = [8, 16, 24, 32] \<and> map fst lp = [16, 32, 64]) \<and>
   (\<exists>agg sp lp.
      fst (pyion_psm_dump example_build [PyLong 65281, PyLong 16384, PyUnicode ''psm'']
             example_world) = Inr (agg, sp, lp) \<and>
      map fst sp = [8, 16, 24, 32] \<and> map fst lp = [16, 32, 64])"
proof
  obtain agg sp lp where r: "fst (pyion_sdr_dump example_build [PyUnicode ''ion'']
      example_world) = Inr (agg, sp, lp)"
    using example_sdr_result by blast
  have "map fst sp = [8, 16, 24, 32] \<and> map fst lp = [16, 32, 64]"
    using histogram_keys [OF example_build_ok disjI1, OF r] by (simp add: example_keys)
  with r show "\<exists>agg sp lp.
      fst (pyion_sdr_dump example_build [PyUnicode ''ion''] example_world) = Inr (agg, sp, lp) \<and>
      map fst sp = [8, 16, 24, 32] \<and> map fst lp = [16, 32, 64]"
    by (intro exI [of _ agg] exI [of _ sp] exI [of _ lp]) simp
next
  obtain agg sp lp where r: "fst (pyion_psm_dump example_build
      [PyLong 65281, PyLong 16384, PyUnicode ''psm''] example_world) = Inr (agg, sp, lp)"
    using example_psm_result by blast
  have "map fst sp = [8, 16, 24, 32] \<and> map fst lp = [16, 32, 64]"
    using histogram_keys [OF example_build_ok disjI2, OF r] by (simp add: example_keys)
  with r show "\<exists>agg sp lp.
      fst (pyion_psm_dump example_build [PyLong 65281, PyLong 16384, PyUnicode ''psm'']
             example_world) = Inr (agg, sp, lp) \<and>
      map fst sp = [8, 16, 24, 32] \<and> map fst lp = [16, 32, 64]"
    by (intro exI [of _ agg] exI [of _ sp] exI [of _ lp]) simp
qed

subsection \<open>The entries of the histograms\<close>

text \<open>
  Claim C6. The block sizes of the build fit \<open>size_t\<close> (\<open>build_ok\<close>) and the two counter
  arrays of the summary have \<open>SMALL_SIZES\<close> and \<open>LARGE_ORDERS\<close> elements, as the structs
  of ION declare them. Then a call of either reader that returns a result returns a
  small-pool histogram of exactly \<open>SMALL_SIZES\<close> entries and a large-pool histogram of
  exactly \<open>LARGE_ORDERS\<close> entries, whatever the counters are, and the value under the key
  of index \<open>i\<close> is the counter of index \<open>i\<close> of the summary the call read, unchanged.
\<close>

theorem histogram_entries:
  assumes "build_ok b"
    and "(fst (pyion_sdr_dump b args w) = Inr (agg, sp, lp) \<and>
          PyArg_ParseTuple_s args = Some name \<and> sdr_start_using w name = Some sdr \<and>
          cs = smallPoolFreeBlockCount (sdr_usage w sdr) \<and>
          cl = largePoolFreeBlockCount (sdr_usage w sdr) \<and>
          summary_arrays_ok b (sdr_usage w sdr)) \<or>
         (fst (pyion_psm_dump b args w) = Inr (agg, sp, lp) \<and>
          PyArg_ParseTuple_iLs args = Some (memKey, memSize, partitionName) \<and>
          psm = snd (memmgr_open w memKey memSize partitionName) \<and>
          cs = smallPoolFreeBlockCount (psm_usage w psm) \<and>
          cl = largePoolFreeBlockCount (psm_usage w psm) \<and>
          summary_arrays_ok b (psm_usage w psm))"
  shows "length sp = SMALL_SIZES b \<and> length lp = LARGE_ORDERS b \<and>
         sp = zip (map (small_key b) [0..<SMALL_SIZES b]) (map uint cs) \<and>
         lp = zip (map (large_key b) [0..<LARGE_ORDERS b]) (map uint cl) \<and>
         (\<forall>i<SMALL_SIZES b. map_of sp (small_key b i) = Some (uint (cs ! i))) \<and>
         (\<forall>i<LARGE_ORDERS b. map_of lp (large_key b i) = Some (uint (cl ! i)))"
proof -
  have loops: "sp = small_pool_loop b cs 0 0 [] \<and>
               lp = large_pool_loop b cl 0 (WORD_SIZE b) [] \<and>
               length cs = SMALL_SIZES b \<and> length cl = LARGE_ORDERS b"
    using assms(2)
  proof (elim disjE conjE)
    assume r: "fst (pyion_sdr_dump b args w) = Inr (agg, sp, lp)"
      and a: "PyArg_ParseTuple_s args = Some name" "sdr_start_using w name = Some sdr"
      and c: "cs = smallPoolFreeBlockCount (sdr_usage w sdr)"
        "cl = largePoolFreeBlockCount (sdr_usage w sdr)"
      and ok: "summary_arrays_ok b (sdr_usage w sdr)"
    from r a show ?thesis
      using ok by (elim sdr_dump_Inr) (simp add: c summary_arrays_ok_def)
  next
    assume r: "fst (pyion_psm_dump b args w) = Inr (agg, sp, lp)"
      and a: "PyArg_ParseTuple_iLs args = Some (memKey, memSize, partitionName)"
        "psm = snd (memmgr_open w memKey memSize partitionName)"
      and c: "cs = smallPoolFreeBlockCount (psm_usage w psm)"
        "cl = largePoolFreeBlockCount (psm_usage w psm)"
      and ok: "summary_arrays_ok b (psm_usage w psm)"
    from r a show ?thesis
      using ok by (elim psm_dump_Inr) (simp add: c summary_arrays_ok_def)
  qed
  then have sp: "sp = small_pool_loop b cs 0 0 []"
    and lp: "lp = large_pool_loop b cl 0 (WORD_SIZE b) []"
    and len: "length cs = SMALL_SIZES b" "length cl = LARGE_ORDERS b"
    by simp_all
  note h = histograms_exact [OF assms(1) sp lp]
  show ?thesis
    using h(3,4) h(7) [OF len(1)] h(8) [OF len(2)] h(5) h(6) by blast
qed

theorem histogram_entries_witness:
  "(\<exists>agg sp lp.
      fst (pyion_sdr_dump example_build [PyUnicode ''ion''] example_world) = Inr (agg, sp, lp) \<and>
      sp = [(8, 5), (16, 0), (24, 7), (32, 1)] \<and> lp = [(16, 0), (32, 2), (64, 9)]) \<and>
   (\<exists>agg sp lp.
      fst (pyion_psm_dump example_build [PyLong 65281, PyLong 16384, PyUnicode ''psm'']
             example_world) = Inr (agg, sp, lp) \<and>
      sp = [(8, 3), (16, 3), (24, 0), (32, 4)] \<and> lp = [(16, 6), (32, 0), (64, 1)])"
proof
  obtain agg sp lp where r: "fst (pyion_sdr_dump example_build [PyUnicode ''ion'']
      example_world) = Inr (agg, sp, lp)"
    using example_sdr_result by blast
  have u: "sdr_usage example_world 3 = example_sdr_usage" by (simp add: example_world_def)
  have ok: "summary_arrays_ok example_build (sdr_usage example_world 3)"
    by (simp add: u summary_arrays_ok_def example_sdr_usage_def example_build_def)
  note hyp = conjI [OF r conjI [OF example_sdr_call(1) conjI [OF example_sdr_call(2)
        conjI [OF refl conjI [OF refl ok]]]]]
  note h = histogram_entries [OF example_build_ok disjI1 [OF hyp]]
  have "sp = [(8, 5), (16, 0), (24, 7), (32, 1)]"
    unfolding h [THEN conjunct2, THEN conjunct2, THEN conjunct1]
    by (simp add: example_keys u example_sdr_usage_def)
  moreover have "lp = [(16, 0), (32, 2), (64, 9)]"
    unfolding h [THEN conjunct2, THEN conjunct2, THEN conjunct2, THEN conjunct1]
    by (simp add: example_keys u example_sdr_usage_def)
  ultimately
  have "sp = [(8, 5), (16, 0), (24, 7), (32, 1)] \<and> lp = [(16, 0), (32, 2), (64, 9)]" ..
  with r show "\<exists>agg sp lp.
      fst (pyion_sdr_dump example_build [PyUnicode ''ion''] example_world) = Inr (agg, sp, lp) \<and>
      sp = [(8, 5), (16, 0), (24, 7), (32, 1)] \<and> lp = [(16, 0), (32, 2), (64, 9)]"
    by (intro exI [of _ agg] exI [of _ sp] exI [of _ lp]) simp
next
  obtain agg sp lp where r: "fst (pyion_psm_dump example_build
      [PyLong 65281, PyLong 16384, PyUnicode ''psm''] example_world) = Inr (agg, sp, lp)"
    using example_psm_result by blast
  have p: "snd (memmgr_open example_world 65281 16384 ''psm'') = 5"
    by (simp add: example_psm_call(3))
  have u: "psm_usage example_world 5 = example_psm_usage" by (rule example_psm_call(5))
  have ok: "summary_arrays_ok example_build (psm_usage example_world 5)"
    by (simp add: u summary_arrays_ok_def example_psm_usage_def example_build_def)
  note hyp = conjI [OF r conjI [OF example_psm_call(1) conjI [OF p [symmetric]
        conjI [OF refl conjI [OF refl ok]]]]]
  note h = histogram_entries [OF example_build_ok disjI2 [OF hyp]]
  have "sp = [(8, 3), (16, 3), (24, 0), (32, 4)]"
    unfolding h [THEN conjunct2, THEN conjunct2, THEN conjunct1]
    by (simp add: example_keys u example_psm_usage_def)
  moreover have "lp = [(16, 6), (32, 0), (64, 1)]"
    unfolding h [THEN conjunct2, THEN conjunct2, THEN conjunct2, THEN conjunct1]
    by (simp add: example_keys u example_psm_usage_def)
  ultimately
  have "sp = [(8, 3), (16, 3), (24, 0), (32, 4)] \<and> lp = [(16, 6), (32, 0), (64, 1)]" ..
  with r show "\<exists>agg sp lp.
      fst (pyion_psm_dump example_build [PyLong 65281, PyLong 16384, PyUnicode ''psm'']
             example_world) = Inr (agg, sp, lp) \<and>
      sp = [(8, 3), (16, 3), (24, 0), (32, 4)] \<and> lp = [(16, 6), (32, 0), (64, 1)]"
    by (intro exI [of _ agg] exI [of _ sp] exI [of _ lp]) simp
qed

subsection \<open>The two readers use the same keys\<close>

text \<open>
  Claim C10. A result of \<open>pyion_sdr_dump\<close> and a result of \<open>pyion_psm_dump\<close>, from any
  two calls in any two worlds of one build, have the same set of small-pool keys and the
  same set of large-pool keys: the keys come from \<open>WORD_SIZE\<close>, \<open>SMALL_SIZES\<close> and
  \<open>LARGE_ORDERS\<close> alone, not from the counters read.
\<close>

theorem histogram_keys_agree:
  assumes "fst (pyion_sdr_dump b args w) = Inr (agg, sp, lp)"
    and "fst (pyion_psm_dump b args' w') = Inr (agg', sp', lp')"
  shows "fst ` set sp = fst ` set sp' \<and> fst ` set lp = fst ` set lp'"
proof -
  obtain cs cl where "sp = small_pool_loop b cs 0 0 []"
    and "lp = large_pool_loop b cl 0 (WORD_SIZE b) []"
    using assms(1) by (elim sdr_dump_Inr) blast
  moreover obtain cs' cl' where "sp' = small_pool_loop b cs' 0 0 []"
    and "lp' = large_pool_loop b cl' 0 (WORD_SIZE b) []"
    using assms(2) by (elim psm_dump_Inr) blast
  ultimately show ?thesis
    by (simp only: small_hist_keys large_hist_keys)
qed

theorem histogram_keys_agree_witness:
  "\<exists>agg sp lp agg' sp' lp'.
     fst (pyion_sdr_dump example_build [PyUnicode ''ion''] example_world) = Inr (agg, sp, lp) \<and>
     fst (pyion_psm_dump example_build [PyLong 65281, PyLong 16384, PyUnicode ''psm'']
            example_world) = Inr (agg', sp', lp') \<and>
     fst ` set sp = fst ` set sp' \<and> fst ` set lp = fst ` set lp'"
proof -
  obtain agg sp lp where r: "fst (pyion_sdr_dump example_build [PyUnicode ''ion'']
      example_world) = Inr (agg, sp, lp)"
    using example_sdr_result by blast
  obtain agg' sp' lp' where r': "fst (pyion_psm_dump example_build
      [PyLong 65281, PyLong 16384, PyUnicode ''psm''] example_world) = Inr (agg', sp', lp')"
    using example_psm_result by blast
  note same = histogram_keys_agree [OF r r']
  show ?thesis
    by (intro exI [of _ agg] exI [of _ sp] exI [of _ lp]
        exI [of _ agg'] exI [of _ sp'] exI [of _ lp'] conjI r r'
        same [THEN conjunct1] same [THEN conjunct2])
qed

subsection \<open>The transaction around the usage query\<close>

text \<open>
  Claim C7. In every call of \<open>pyion_sdr_dump\<close>, \<open>sdr_usage\<close> runs only with the
  transaction open; a transaction that \<open>sdr_pybegin_xn\<close> has opened is closed by exactly
  one \<open>sdr_end_xn\<close> before the call returns, on every path (\<open>sdr_usage\<close> returns nothing,
  so no path leaves between the two); and when \<open>sdr_pybegin_xn\<close> fails the call makes
  no usage query and returns the error.
\<close>

theorem sdr_dump_transaction_bracket:
  assumes "es = call_events w (snd (pyion_sdr_dump b args w))"
  shows "usage_inside_xn 0 es \<and> xn_held 0 es = 0 \<and>
         length (filter is_acquire es) \<le> 1 \<and>
         length (filter is_release es) = length (filter is_acquire es) \<and>
         (E_sdr_pybegin_xn sdr True \<in> set es \<longrightarrow>
            length (filter is_release es) = 1 \<and> length (filter is_usage es) = 1) \<and>
         (E_sdr_pybegin_xn sdr False \<in> set es \<longrightarrow>
            filter is_usage es = [] \<and> filter is_release es = [] \<and>
            fst (pyion_sdr_dump b args w) = Inl (TransactionError sdr))"
proof (cases rule: sdr_paths [where args = args and w = w])
  case no_args
  then show ?thesis unfolding assms by (simp add: sdr_dump_no_args)
next
  case (no_attach name)
  then show ?thesis unfolding assms by (simp add: sdr_dump_no_attach)
next
  case (no_xn name sdr')
  then show ?thesis unfolding assms by (simp add: sdr_dump_no_xn)
next
  case (end_zero name sdr')
  then show ?thesis unfolding assms by (simp add: sdr_dump_end_zero)
next
  case (success name sdr')
  then show ?thesis unfolding assms by (simp add: sdr_dump_success)
qed

theorem sdr_dump_transaction_bracket_witness:
  "(E_sdr_pybegin_xn 3 True \<in> set (call_events example_world
       (snd (pyion_sdr_dump example_build [PyUnicode ''ion''] example_world))) \<and>
    length (filter is_release (call_events example_world
       (snd (pyion_sdr_dump example_build [PyUnicode ''ion''] example_world)))) = 1) \<and>
   (E_sdr_pybegin_xn 3 False \<in> set (call_events no_xn_world
       (snd (pyion_sdr_dump example_build [PyUnicode ''ion''] no_xn_world))) \<and>
    filter is_usage (call_events no_xn_world
       (snd (pyion_sdr_dump example_build [PyUnicode ''ion''] no_xn_world))) = [] \<and>
    fst (pyion_sdr_dump example_build [PyUnicode ''ion''] no_xn_world) =
      Inl (TransactionError 3))"
proof (intro conjI)
  let ?ok = "call_events example_world
       (snd (pyion_sdr_dump example_build [PyUnicode ''ion''] example_world))"
  let ?no = "call_events no_xn_world
       (snd (pyion_sdr_dump example_build [PyUnicode ''ion''] no_xn_world))"
  show acq: "E_sdr_pybegin_xn 3 True \<in> set ?ok"
    unfolding sdr_dump_success [OF example_sdr_call] by simp
  note ok = sdr_dump_transaction_bracket [OF refl, of example_world example_build
      "[PyUnicode ''ion'']" 3]
  show "length (filter is_release ?ok) = 1"
    by (rule ok [THEN conjunct2, THEN conjunct2, THEN conjunct2, THEN conjunct2,
          THEN conjunct1, THEN mp, OF acq, THEN conjunct1])
  show rej: "E_sdr_pybegin_xn 3 False \<in> set ?no"
    unfolding sdr_dump_no_xn [OF example_sdr_call(1) no_xn_sdr_call] by simp
  note no = sdr_dump_transaction_bracket [OF refl, of no_xn_world example_build
      "[PyUnicode ''ion'']" 3, THEN conjunct2, THEN conjunct2, THEN conjunct2,
      THEN conjunct2, THEN conjunct2, THEN mp, OF rej]
  show "filter is_usage ?no = []"
    by (rule no [THEN conjunct1])
  show "fst (pyion_sdr_dump example_build [PyUnicode ''ion''] no_xn_world) =
          Inl (TransactionError 3)"
    by (rule no [THEN conjunct2, THEN conjunct2])
qed

subsection \<open>Failures of ION\<close>

text \<open>
  Claim C8. A failure that ION signals ends the call with an error and no result, after
  the failing call into ION and with no second attempt:
  \<^item> \<open>sdr_start_using\<close> answers \<open>NULL\<close>: the error of the spec's \<open>AttachError\<close>, a
    \<open>MemoryError\<close> whose message has the name of the SDR in the place of \<open>%s\<close>;
  \<^item> \<open>sdr_pybegin_xn\<close> fails: its \<open>TransactionError\<close>;
  \<^item> \<open>sm_ipc_init\<close> answers a negative code: the error of the spec's \<open>IpcInitError\<close>, a
    \<open>MemoryError\<close> with the message of the IPC initialization;
  \<^item> \<open>memmgr_open\<close> answers a negative code: the \<open>AttachError\<close> again, a \<open>MemoryError\<close>
    whose message has the key in the place of \<open>%i\<close>.
\<close>

theorem collaborator_failure_is_error:
  "(PyArg_ParseTuple_s args = Some name \<and> sdr_start_using w name = None \<longrightarrow>
      fst (pyion_sdr_dump b args w) =
        Inl (pyion_SetExc PyExc_MemoryError ''Could not attach to SDR with name '%s'.''
               [Arg_s name]) \<and>
      call_events w (snd (pyion_sdr_dump b args w)) =
        [E_sdr_initialize, E_sdr_start_using name None]) \<and>
   (PyArg_ParseTuple_s args = Some name \<and> sdr_start_using w name = Some sdr \<and>
    \<not> sdr_begin_xn w sdr \<longrightarrow>
      fst (pyion_sdr_dump b args w) = Inl (TransactionError sdr) \<and>
      call_events w (snd (pyion_sdr_dump b args w)) =
        [E_sdr_initialize, E_sdr_start_using name (Some sdr), E_sdr_pybegin_xn sdr False]) \<and>
   (PyArg_ParseTuple_iLs args' = Some (memKey, memSize, partitionName) \<and>
    sm_ipc_init w < 0 \<longrightarrow>
      fst (pyion_psm_dump b args' w) =
        Inl (pyion_SetExc PyExc_MemoryError ''IPC initialization failed.'' []) \<and>
      call_events w (snd (pyion_psm_dump b args' w)) = [E_sm_ipc_init (sm_ipc_init w)]) \<and>
   (PyArg_ParseTuple_iLs args' = Some (memKey, memSize, partitionName) \<and>
    \<not> sm_ipc_init w < 0 \<and> fst (memmgr_open w memKey memSize partitionName) < 0 \<longrightarrow>
      fst (pyion_psm_dump b args' w) =
        Inl (pyion_SetExc PyExc_MemoryError ''Can't attach to PSM with key '%i'.''
               [Arg_i memKey]) \<and>
      call_events w (snd (pyion_psm_dump b args' w)) =
        [E_sm_ipc_init (sm_ipc_init w),
         E_memmgr_open memKey memSize partitionName
           (fst (memmgr_open w memKey memSize partitionName))])"
proof (intro conjI impI; elim conjE)
  assume "PyArg_ParseTuple_s args = Some name" "sdr_start_using w name = None"
  then show "fst (pyion_sdr_dump b args w) =
        Inl (pyion_SetExc PyExc_MemoryError ''Could not attach to SDR with name '%s'.''
               [Arg_s name])"
    and "call_events w (snd (pyion_sdr_dump b args w)) =
        [E_sdr_initialize, E_sdr_start_using name None]"
    by (simp_all add: sdr_dump_no_attach)
next
  assume "PyArg_ParseTuple_s args = Some name" "sdr_start_using w name = Some sdr"
    "\<not> sdr_begin_xn w sdr"
  then show "fst (pyion_sdr_dump b args w) = Inl (TransactionError sdr)"
    and "call_events w (snd (pyion_sdr_dump b args w)) =
        [E_sdr_initialize, E_sdr_start_using name (Some sdr), E_sdr_pybegin_xn sdr False]"
    by (simp_all add: sdr_dump_no_xn)
next
  assume "PyArg_ParseTuple_iLs args' = Some (memKey, memSize, partitionName)"
    "sm_ipc_init w < 0"
  then show "fst (pyion_psm_dump b args' w) =
        Inl (pyion_SetExc PyExc_MemoryError ''IPC initialization failed.'' [])"
    and "call_events w (snd (pyion_psm_dump b args' w)) = [E_sm_ipc_init (sm_ipc_init w)]"
    by (simp_all add: psm_dump_no_ipc)
next
  assume a: "PyArg_ParseTuple_iLs args' = Some (memKey, memSize, partitionName)"
    "\<not> sm_ipc_init w < 0" "fst (memmgr_open w memKey memSize partitionName) < 0"
  obtain rc psm where m: "memmgr_open w memKey memSize partitionName = (rc, psm)"
    by (cases "memmgr_open w memKey memSize partitionName")
  with a(3) have rc: "rc < 0" by simp
  note r = psm_dump_no_attach [OF a(1,2) m rc, of b]
  show "fst (pyion_psm_dump b args' w) =
        Inl (pyion_SetExc PyExc_MemoryError ''Can't attach to PSM with key '%i'.''
               [Arg_i memKey])"
    and "call_events w (snd (pyion_psm_dump b args' w)) =
        [E_sm_ipc_init (sm_ipc_init w),
         E_memmgr_open memKey memSize partitionName
           (fst (memmgr_open w memKey memSize partitionName))]"
    by (simp_all add: r m)
qed

theorem collaborator_failure_is_error_witness:
  "fst (pyion_sdr_dump example_build [PyUnicode ''nowhere''] example_world) =
     Inl (pyion_SetExc PyExc_MemoryError ''Could not attach to SDR with name '%s'.''
            [Arg_s ''nowhere'']) \<and>
   fst (pyion_sdr_dump example_build [PyUnicode ''ion''] no_xn_world) =
     Inl (TransactionError 3) \<and>
   fst (pyion_psm_dump example_build [PyLong 7, PyLong 16384, PyUnicode ''psm''] no_ipc_world) =
     Inl (pyion_SetExc PyExc_MemoryError ''IPC initialization failed.'' []) \<and>
   fst (pyion_psm_dump example_build [PyLong 7, PyLong 16384, PyUnicode ''psm''] example_world) =
     Inl (pyion_SetExc PyExc_MemoryError ''Can't attach to PSM with key '%i'.'' [Arg_i 7])"
proof (intro conjI)
  show "fst (pyion_sdr_dump example_build [PyUnicode ''nowhere''] example_world) =
     Inl (pyion_SetExc PyExc_MemoryError ''Could not attach to SDR with name '%s'.''
            [Arg_s ''nowhere''])"
    by (rule collaborator_failure_is_error [THEN conjunct1, THEN mp, THEN conjunct1,
          OF conjI [OF failing_calls(1,2)]])
  show "fst (pyion_sdr_dump example_build [PyUnicode ''ion''] no_xn_world) =
     Inl (TransactionError 3)"
    by (rule collaborator_failure_is_error [THEN conjunct2, THEN conjunct1, THEN mp,
          THEN conjunct1,
          OF conjI [OF example_sdr_call(1) conjI [OF no_xn_sdr_call]]])
  show "fst (pyion_psm_dump example_build [PyLong 7, PyLong 16384, PyUnicode ''psm'']
          no_ipc_world) =
     Inl (pyion_SetExc PyExc_MemoryError ''IPC initialization failed.'' [])"
    by (rule collaborator_failure_is_error [THEN conjunct2, THEN conjunct2, THEN conjunct1,
          THEN mp, THEN conjunct1, OF conjI [OF failing_calls(4,3)]])
  show "fst (pyion_psm_dump example_build [PyLong 7, PyLong 16384, PyUnicode ''psm'']
          example_world) =
     Inl (pyion_SetExc PyExc_MemoryError ''Can't attach to PSM with key '%i'.'' [Arg_i 7])"
    by (rule collaborator_failure_is_error [THEN conjunct2, THEN conjunct2, THEN conjunct2,
          THEN mp, THEN conjunct1,
          OF conjI [OF failing_calls(4) conjI [OF example_psm_call(2) failing_calls(5)]]])
qed

subsection \<open>Two calls in a row\<close>

text \<open>
  Claim C9. For either reader, a second call with the same arguments, in the world the
  first call left (the arenas answer as before; only the trace of calls has grown),
  returns the same result as the first. More generally the result of a call does not
  depend on the calls made before it.
\<close>

theorem dump_twice_same_result:
  "fst (pyion_sdr_dump b args (snd (pyion_sdr_dump b args w))) = fst (pyion_sdr_dump b args w) \<and>
   fst (pyion_psm_dump b args' (snd (pyion_psm_dump b args' w))) =
     fst (pyion_psm_dump b args' w) \<and>
   fst (pyion_sdr_dump b args (w\<lparr>trace := t\<rparr>)) = fst (pyion_sdr_dump b args w) \<and>
   fst (pyion_psm_dump b args' (w\<lparr>trace := t\<rparr>)) = fst (pyion_psm_dump b args' w)"
proof -
  have "fst (pyion_sdr_dump b args (snd (pyion_sdr_dump b args w))) =
          fst (pyion_sdr_dump b args (w\<lparr>trace := trace (snd (pyion_sdr_dump b args w))\<rparr>))"
    by (rule arg_cong [OF sdr_dump_world])
  then have sdr: "fst (pyion_sdr_dump b args (snd (pyion_sdr_dump b args w))) =
                    fst (pyion_sdr_dump b args w)"
    by (simp only: sdr_dump_trace_irrelevant)
  have "fst (pyion_psm_dump b args' (snd (pyion_psm_dump b args' w))) =
          fst (pyion_psm_dump b args' (w\<lparr>trace := trace (snd (pyion_psm_dump b args' w))\<rparr>))"
    by (rule arg_cong [OF psm_dump_world])
  then have psm: "fst (pyion_psm_dump b args' (snd (pyion_psm_dump b args' w))) =
                    fst (pyion_psm_dump b args' w)"
    by (simp only: psm_dump_trace_irrelevant)
  show ?thesis
    by (intro conjI sdr psm sdr_dump_trace_irrelevant psm_dump_trace_irrelevant)
qed

subsection \<open>Giving the handle back\<close>

text \<open>
  Claim C2 asks that every path that has obtained the handle of the SDR gives it back
  with \<open>sdr_stop_using\<close> before it returns. The module does so on the path that returns a
  result (third line), and does not when \<open>sdr_pybegin_xn\<close> fails (first line) or when
  \<open>sdr_end_xn\<close> answers 0 (second line): there it returns \<open>NULL\<close> at once and handle 3
  stays in use.
\<close>

theorem sdr_dump_keeps_handle:
  "handles_held [] (call_events no_xn_world
      (snd (pyion_sdr_dump example_build [PyUnicode ''ion''] no_xn_world))) = [3] \<and>
   handles_held [] (call_events end_zero_world
      (snd (pyion_sdr_dump example_build [PyUnicode ''ion''] end_zero_world))) = [3] \<and>
   handles_held [] (call_events example_world
      (snd (pyion_sdr_dump example_build [PyUnicode ''ion''] example_world))) = []"
  unfolding sdr_dump_no_xn [OF example_sdr_call(1) no_xn_sdr_call]
    sdr_dump_end_zero [OF example_sdr_call(1) end_zero_sdr_call]
    sdr_dump_success [OF example_sdr_call]
  by simp

end
